theory Spec2Isabelle
  imports Complex_Main "HOL-Library.Word"
begin

section \<open>Numbers, coordinates and the distance function\<close>

text \<open>
  A coordinate is the object the location and geocoding providers hand over; only its
  \<open>latitude\<close> and \<open>longitude\<close> fields are read. The fields are modelled as real numbers,
  and the one way the source's arithmetic can leave the numbers is kept as the value
  \<open>NaN\<close>, which \<open>Math.sqrt\<close> returns below zero and \<open>Math.asin\<close> returns outside
  \<open>[-1, 1]\<close>. The distance function is given twice: first with exact arithmetic, the
  function the source's expression denotes, and then with every operation rounded to a
  double, the function the source computes.
\<close>

record coordinate =
  latitude :: real
  longitude :: real

datatype number = Num real | NaN

text \<open>Reading a field of \<open>null\<close> or \<open>undefined\<close> throws a \<open>TypeError\<close>.\<close>

datatype js_error = TypeError

definition Math_sqrt :: "real \<Rightarrow> number" where
  "Math_sqrt x = (if x < 0 then NaN else Num (sqrt x))"

definition Math_asin :: "number \<Rightarrow> number" where
  "Math_asin n =
     (case n of
        NaN \<Rightarrow> NaN
      | Num x \<Rightarrow> if x < - 1 \<or> 1 < x then NaN else Num (arcsin x))"

definition times_number :: "real \<Rightarrow> number \<Rightarrow> number" where
  "times_number k n = (case n of NaN \<Rightarrow> NaN | Num x \<Rightarrow> Num (k * x))"

text \<open>Comparisons with \<open>NaN\<close> are false.\<close>

definition le_number :: "number \<Rightarrow> real \<Rightarrow> bool" where
  "le_number n k = (case n of NaN \<Rightarrow> False | Num x \<Rightarrow> x \<le> k)"

definition gt_number :: "number \<Rightarrow> real \<Rightarrow> bool" where
  "gt_number n k = (case n of NaN \<Rightarrow> False | Num x \<Rightarrow> k < x)"

text \<open>The constant \<open>p\<close> of \<open>calculateDistance\<close>, written as in the source.\<close>

definition p :: real where
  "p = 0.017453292519943295"

text \<open>The local \<open>a\<close> of \<open>calculateDistance\<close> (the same expression in both files).\<close>

definition calc_a :: "coordinate \<Rightarrow> coordinate \<Rightarrow> real" where
  "calc_a c1 c2 =
     (let lat1 = latitude c1; lon1 = longitude c1;
          lat2 = latitude c2; lon2 = longitude c2
      in 0.5 - cos ((lat2 - lat1) * p) / 2
         + cos (lat1 * p) * cos (lat2 * p) * (1 - cos ((lon2 - lon1) * p)) / 2)"

text \<open>
  \<open>calculateDistance(c1, c2)\<close>. An argument that is \<open>null\<close> or \<open>undefined\<close> is \<open>None\<close>:
  the first field access on it throws.
\<close>

definition calculateDistance ::
  "coordinate option \<Rightarrow> coordinate option \<Rightarrow> js_error + number" where
  "calculateDistance c1 c2 =
     (case c1 of
        None \<Rightarrow> Inl TypeError
      | Some x \<Rightarrow>
          (case c2 of
             None \<Rightarrow> Inl TypeError
           | Some y \<Rightarrow> Inr (times_number 12742 (Math_asin (Math_sqrt (calc_a x y))))))"

text \<open>The value \<open>calculateDistance\<close> has on two coordinates, as a real number of kilometres.\<close>

definition distanceKm :: "coordinate \<Rightarrow> coordinate \<Rightarrow> real" where
  "distanceKm x y = 12742 * arcsin (sqrt (calc_a x y))"

text \<open>
  The textbook haversine distance on a sphere of radius \<open>R\<close>, with the angles converted
  from degrees by the source's factor \<open>p\<close>: the reference the distance function is
  compared with.
\<close>

definition haversine_reference :: "real \<Rightarrow> coordinate \<Rightarrow> coordinate \<Rightarrow> real" where
  "haversine_reference R x y =
     2 * R * arcsin (sqrt ((sin ((latitude y - latitude x) * p / 2))\<^sup>2
        + cos (latitude x * p) * cos (latitude y * p)
          * (sin ((longitude y - longitude x) * p / 2))\<^sup>2))"

section \<open>The distance function in double-precision arithmetic\<close>

text \<open>
  JavaScript numbers are IEEE 754 doubles: every arithmetic operation returns the double
  nearest to the exact result, ties going to the even significand. \<open>fl\<close> is that
  rounding on the reals: \<open>binade x\<close> is the exponent of \<open>x\<close>, \<open>ulp x\<close> the spacing of the
  doubles around \<open>x\<close> (53 significant bits), and \<open>round_even\<close> rounds to the nearest integer,
  ties to even. The exponent range is not bounded here: overflow to \<open>Infinity\<close> and the
  subnormal numbers below \<open>2 ^ - 1022\<close> are not modelled, and neither is the sign of zero.
  A coordinate field is a finite number.
\<close>

definition round_even :: "real \<Rightarrow> int" where
  "round_even m =
     (let f = \<lfloor>m\<rfloor>
      in if m - of_int f < 1 / 2 then f
         else if 1 / 2 < m - of_int f then f + 1
         else if even f then f else f + 1)"

definition binade :: "real \<Rightarrow> int" where
  "binade x = \<lfloor>log 2 \<bar>x\<bar>\<rfloor>"

definition ulp :: "real \<Rightarrow> real" where
  "ulp x = 2 powr (of_int (binade x) - 52)"

definition fl :: "real \<Rightarrow> real" where
  "fl x = (if x = 0 then 0 else of_int (round_even (x / ulp x)) * ulp x)"

text \<open>The literal \<open>0.017453292519943295\<close> denotes the double nearest to it.\<close>

definition p_double :: real where
  "p_double = fl 0.017453292519943295"

text \<open>
  ECMAScript leaves the precision of \<open>Math.cos\<close> and \<open>Math.asin\<close> to the implementation;
  \<open>Math.sqrt\<close> is correctly rounded by IEEE 754. All three are taken as correctly
  rounded, which is what the usual libraries return except at arguments whose result is
  very close to the middle between two doubles.
\<close>

definition Math_cos_double :: "real \<Rightarrow> real" where
  "Math_cos_double x = fl (cos x)"

definition Math_sqrt_double :: "real \<Rightarrow> number" where
  "Math_sqrt_double x = (if x < 0 then NaN else Num (fl (sqrt x)))"

definition Math_asin_double :: "number \<Rightarrow> number" where
  "Math_asin_double n =
     (case n of
        NaN \<Rightarrow> NaN
      | Num x \<Rightarrow> if x < - 1 \<or> 1 < x then NaN else Num (fl (arcsin x)))"

definition times_double :: "real \<Rightarrow> number \<Rightarrow> number" where
  "times_double k n = (case n of NaN \<Rightarrow> NaN | Num x \<Rightarrow> Num (fl (k * x)))"

text \<open>
  The local \<open>a\<close> of \<open>calculateDistance\<close> with every operation rounded, in the order
  JavaScript evaluates the expression: \<open>(0.5 - c(..) / 2) + ((c(..) * c(..)) * (1 - c(..))) / 2\<close>.
\<close>

definition calc_a_double :: "coordinate \<Rightarrow> coordinate \<Rightarrow> real" where
  "calc_a_double c1 c2 =
     (let lat1 = latitude c1; lon1 = longitude c1;
          lat2 = latitude c2; lon2 = longitude c2;
          c = Math_cos_double
      in fl (fl (1 / 2 - fl (c (fl (fl (lat2 - lat1) * p_double)) / 2))
             + fl (fl (fl (c (fl (lat1 * p_double)) * c (fl (lat2 * p_double)))
                       * fl (1 - c (fl (fl (lon2 - lon1) * p_double)))) / 2)))"

text \<open>\<open>calculateDistance(c1, c2)\<close> as the source computes it, on doubles.\<close>

definition calculateDistance_double ::
  "coordinate option \<Rightarrow> coordinate option \<Rightarrow> js_error + number" where
  "calculateDistance_double c1 c2 =
     (case c1 of
        None \<Rightarrow> Inl TypeError
      | Some x \<Rightarrow>
          (case c2 of
             None \<Rightarrow> Inl TypeError
           | Some y \<Rightarrow>
               Inr (times_double 12742
                     (Math_asin_double (Math_sqrt_double (calc_a_double x y))))))"

text \<open>How far a computed value \<open>v\<close> is from a reference value \<open>r\<close>, relative to \<open>r\<close>.\<close>

definition relative_error :: "real \<Rightarrow> real \<Rightarrow> real" where
  "relative_error v r = \<bar>v - r\<bar> / \<bar>r\<bar>"

text \<open>
  The Taylor polynomial of the cosine of degree \<open>2 * k - 2\<close> at \<open>y = x\<^sup>2\<close>, in Horner form
  from the term of index \<open>i\<close> on: the values of \<open>Math.cos\<close> are enclosed with it.
\<close>

primrec cos_horner :: "nat \<Rightarrow> real \<Rightarrow> real \<Rightarrow> real" where
  "cos_horner 0 i y = 0"
| "cos_horner (Suc k) i y = 1 - y / ((2 * i + 1) * (2 * i + 2)) * cos_horner k (i + 1) y"

section \<open>Strings\<close>

text \<open>
  A JavaScript string is a sequence of UTF-16 code units. \<open>String.prototype.trim\<close>
  removes the white space and line terminator code points of ECMAScript from both ends;
  a string is falsy exactly when it is empty.
\<close>

type_synonym js_string = "16 word list"

definition isWhiteSpace :: "16 word \<Rightarrow> bool" where
  "isWhiteSpace c \<longleftrightarrow>
     c \<in> set [0x0009, 0x000A, 0x000B, 0x000C, 0x000D, 0x0020, 0x00A0, 0x1680,
              0x2000, 0x2001, 0x2002, 0x2003, 0x2004, 0x2005, 0x2006, 0x2007,
              0x2008, 0x2009, 0x200A, 0x2028, 0x2029, 0x202F, 0x205F, 0x3000, 0xFEFF]"

definition trim :: "js_string \<Rightarrow> js_string" where
  "trim s = rev (dropWhile isWhiteSpace (rev (dropWhile isWhiteSpace s)))"

section \<open>Side effects\<close>

text \<open>
  What a handler or an effect asks of the device, in the order asked:
  \<open>Vibration.vibrate(pattern)\<close>; \<open>Alert.alert(title, message)\<close>; the proximity dialog
  of \<open>triggerProximityAlert\<close>, whose message prints the distance; the global \<open>alert(message)\<close>
  of the older file; and a call of \<open>Location.geocodeAsync(query)\<close>.
\<close>

datatype effect =
    Vibrate "nat list"
  | AlertDialog string string
  | ProximityDialog number
  | WindowAlert string
  | GeocodeAsync js_string

fun is_vibration :: "effect \<Rightarrow> bool" where
  "is_vibration (Vibrate _) = True"
| "is_vibration _ = False"

text \<open>Every proximity alert vibrates once and nothing else vibrates: alerts are counted by it.\<close>

definition alert_count :: "effect list \<Rightarrow> nat" where
  "alert_count fx = length (filter is_vibration fx)"

fun is_geocode_call :: "effect \<Rightarrow> bool" where
  "is_geocode_call (GeocodeAsync _) = True"
| "is_geocode_call _ = False"

section \<open>The screen with tracking (the unnamed source file)\<close>

text \<open>
  The \<open>useState\<close> cells of \<open>HomeScreen\<close>. An unset cell (\<open>null\<close>) is \<open>None\<close>.
  Map animation through \<open>mapRef\<close>, the pulse animation and the location subscription
  read these cells and write none of them but \<open>isTracking\<close>; of them only the two failure
  paths of \<open>startLocationTracking\<close> are modelled.
\<close>

record screen_state =
  location :: "coordinate option"
  destination :: "coordinate option"
  errorMsg :: "string option"
  searchText :: js_string
  isLoading :: bool
  distance :: "number option"
  isTracking :: bool
  hasAlerted :: bool

definition initial_screen :: screen_state where
  "initial_screen =
     \<lparr>location = None, destination = None, errorMsg = None, searchText = [],
      isLoading = False, distance = None, isTracking = False, hasAlerted = False\<rparr>"

text \<open>
  What reaches the component: the mount (the permission request starts and
  \<open>isLoading\<close> is set), the first position fix or its refusal, a sample of the
  position watcher, a tap on the map, an edit of the search box, a press of the search
  button, the geocoder's answer to it (a list of results, or a rejection), the clear
  and tracking buttons, and the two ways \<open>startLocationTracking\<close> gives up.
\<close>

datatype event =
    Mounted
  | InitialPosition coordinate
  | PermissionDenied
  | WatchPosition coordinate
  | MapPress coordinate
  | ChangeText js_string
  | SearchPressed
  | GeocodeResolved "coordinate list"
  | GeocodeRejected
  | ClearPressed
  | TrackPressed
  | TrackingDenied
  | TrackingFailed

definition triggerProximityAlert :: "number \<Rightarrow> effect list" where
  "triggerProximityAlert d = [Vibrate [500, 200, 500, 200, 500], ProximityDialog d]"

definition handleMapPress :: "coordinate \<Rightarrow> screen_state \<Rightarrow> screen_state" where
  "handleMapPress coords s = s\<lparr>destination := Some coords, hasAlerted := False\<rparr>"

text \<open>
  \<open>handleSearch\<close> up to its \<open>await\<close>, and its three continuations: a non-empty
  answer, an empty one, and a rejection caught by the \<open>catch\<close>. The state updates
  after the \<open>await\<close> are batched into one render, as those of an event handler are
  (the automatic batching of React 18; a root that rendered after every update would run
  the effect between \<open>setDestination\<close> and \<open>setHasAlerted(false)\<close>).
\<close>

definition handleSearch_submit :: "screen_state \<Rightarrow> screen_state \<times> effect list" where
  "handleSearch_submit s =
     (if trim (searchText s) = []
      then (s, [AlertDialog ''Error'' ''Please enter a location to search''])
      else (s\<lparr>isLoading := True\<rparr>, [GeocodeAsync (searchText s)]))"

definition handleSearch_resolved ::
  "coordinate list \<Rightarrow> screen_state \<Rightarrow> screen_state \<times> effect list" where
  "handleSearch_resolved geocode s =
     (case geocode of
        g # _ \<Rightarrow>
          (s\<lparr>destination := Some \<lparr>latitude = latitude g, longitude = longitude g\<rparr>,
             hasAlerted := False, isLoading := False\<rparr>, [])
      | [] \<Rightarrow>
          (s\<lparr>isLoading := False\<rparr>,
           [AlertDialog ''Not Found'' ''Location not found. Please try again.'']))"

definition handleSearch_rejected :: "screen_state \<Rightarrow> screen_state \<times> effect list" where
  "handleSearch_rejected s =
     (s\<lparr>isLoading := False\<rparr>,
      [AlertDialog ''Error'' ''Failed to search location. Please try again.''])"

definition clearDestination :: "screen_state \<Rightarrow> screen_state" where
  "clearDestination s =
     s\<lparr>destination := None, distance := None, isTracking := False,
       hasAlerted := False, searchText := []\<rparr>"

definition toggleTracking :: "screen_state \<Rightarrow> screen_state \<times> effect list" where
  "toggleTracking s =
     (if destination s = None
      then (s, [AlertDialog ''No Destination'' ''Please select a destination first''])
      else (s\<lparr>isTracking := \<not> isTracking s\<rparr>, []))"

text \<open>The state updates of one event, batched into one render, and what it asks for.\<close>

fun handle :: "event \<Rightarrow> screen_state \<Rightarrow> screen_state \<times> effect list" where
  "handle Mounted s = (s\<lparr>isLoading := True\<rparr>, [])"
| "handle (InitialPosition coords) s = (s\<lparr>location := Some coords, isLoading := False\<rparr>, [])"
| "handle PermissionDenied s =
     (s\<lparr>errorMsg := Some ''Permission to access location was denied'', isLoading := False\<rparr>, [])"
| "handle (WatchPosition coords) s = (s\<lparr>location := Some coords\<rparr>, [])"
| "handle (MapPress coords) s = (handleMapPress coords s, [])"
| "handle (ChangeText t) s = (s\<lparr>searchText := t\<rparr>, [])"
| "handle SearchPressed s = handleSearch_submit s"
| "handle (GeocodeResolved geocode) s = handleSearch_resolved geocode s"
| "handle GeocodeRejected s = handleSearch_rejected s"
| "handle ClearPressed s = (clearDestination s, [])"
| "handle TrackPressed s = toggleTracking s"
| "handle TrackingDenied s =
     (s\<lparr>isTracking := False\<rparr>,
      [AlertDialog ''Background Permission Required''
         ''Please enable background location to track your journey.''])"
| "handle TrackingFailed s =
     (s\<lparr>isTracking := False\<rparr>, [AlertDialog ''Error'' ''Failed to start location tracking''])"

text \<open>
  The effect with dependencies \<open>[location, destination]\<close>. It reads \<open>hasAlerted\<close> as
  rendered and writes \<open>distance\<close> and \<open>hasAlerted\<close>; the source's local \<open>dist\<close> is \<open>d\<close>.
\<close>

definition distanceEffect :: "screen_state \<Rightarrow> js_error + screen_state \<times> effect list" where
  "distanceEffect s =
     (if location s \<noteq> None \<and> destination s \<noteq> None
      then (case calculateDistance (location s) (destination s) of
              Inl err \<Rightarrow> Inl err
            | Inr d \<Rightarrow>
                (if le_number d 2 \<and> \<not> hasAlerted s
                 then Inr (s\<lparr>distance := Some d, hasAlerted := True\<rparr>,
                           triggerProximityAlert d)
                 else if gt_number d 2.5
                 then Inr (s\<lparr>distance := Some d, hasAlerted := False\<rparr>, [])
                 else Inr (s\<lparr>distance := Some d\<rparr>, [])))
      else Inr (s, []))"

text \<open>
  Whether the event stores a new object in \<open>location\<close> or \<open>destination\<close>, so that the
  effect runs after the render. Clearing a destination that is already \<open>null\<close> changes
  nothing.
\<close>

fun changes_dependencies :: "event \<Rightarrow> screen_state \<Rightarrow> bool" where
  "changes_dependencies (InitialPosition _) s = True"
| "changes_dependencies (WatchPosition _) s = True"
| "changes_dependencies (MapPress _) s = True"
| "changes_dependencies (GeocodeResolved geocode) s = (geocode \<noteq> [])"
| "changes_dependencies ClearPressed s = (destination s \<noteq> None)"
| "changes_dependencies _ s = False"

text \<open>One event: the handler, the render, then the effect if its dependencies changed.\<close>

definition step :: "event \<Rightarrow> screen_state \<Rightarrow> js_error + screen_state \<times> effect list" where
  "step e s =
     (case handle e s of
        (s1, fx1) \<Rightarrow>
          if changes_dependencies e s
          then (case distanceEffect s1 of
                  Inl err \<Rightarrow> Inl err
                | Inr (s2, fx2) \<Rightarrow> Inr (s2, fx1 @ fx2))
          else Inr (s1, fx1))"

text \<open>A sequence of events, one after the other; an uncaught error ends it.\<close>

fun run :: "event list \<Rightarrow> screen_state \<Rightarrow> js_error + screen_state \<times> effect list" where
  "run [] s = Inr (s, [])"
| "run (e # es) s =
     (case step e s of
        Inl err \<Rightarrow> Inl err
      | Inr (s1, fx1) \<Rightarrow>
          (case run es s1 of
             Inl err \<Rightarrow> Inl err
           | Inr (s2, fx2) \<Rightarrow> Inr (s2, fx1 @ fx2)))"

text \<open>
  The effect and the step with the distance function as a parameter \<open>calc\<close>: what the
  effect does with the number \<open>calculateDistance\<close> returns does not depend on how that
  number is computed. \<open>distanceEffect\<close> and \<open>step\<close> are the instance for the exact
  \<open>calculateDistance\<close>; the instance for \<open>calculateDistance_double\<close> is the component as it
  runs.
\<close>

definition distanceEffect_with ::
  "(coordinate option \<Rightarrow> coordinate option \<Rightarrow> js_error + number)
     \<Rightarrow> screen_state \<Rightarrow> js_error + screen_state \<times> effect list" where
  "distanceEffect_with calc s =
     (if location s \<noteq> None \<and> destination s \<noteq> None
      then (case calc (location s) (destination s) of
              Inl err \<Rightarrow> Inl err
            | Inr d \<Rightarrow>
                (if le_number d 2 \<and> \<not> hasAlerted s
                 then Inr (s\<lparr>distance := Some d, hasAlerted := True\<rparr>,
                           triggerProximityAlert d)
                 else if gt_number d 2.5
                 then Inr (s\<lparr>distance := Some d, hasAlerted := False\<rparr>, [])
                 else Inr (s\<lparr>distance := Some d\<rparr>, [])))
      else Inr (s, []))"

definition step_with ::
  "(coordinate option \<Rightarrow> coordinate option \<Rightarrow> js_error + number)
     \<Rightarrow> event \<Rightarrow> screen_state \<Rightarrow> js_error + screen_state \<times> effect list" where
  "step_with calc e s =
     (case handle e s of
        (s1, fx1) \<Rightarrow>
          if changes_dependencies e s
          then (case distanceEffect_with calc s1 of
                  Inl err \<Rightarrow> Inl err
                | Inr (s2, fx2) \<Rightarrow> Inr (s2, fx1 @ fx2))
          else Inr (s1, fx1))"

fun run_with ::
  "(coordinate option \<Rightarrow> coordinate option \<Rightarrow> js_error + number)
     \<Rightarrow> event list \<Rightarrow> screen_state \<Rightarrow> js_error + screen_state \<times> effect list" where
  "run_with calc [] s = Inr (s, [])"
| "run_with calc (e # es) s =
     (case step_with calc e s of
        Inl err \<Rightarrow> Inl err
      | Inr (s1, fx1) \<Rightarrow>
          (case run_with calc es s1 of
             Inl err \<Rightarrow> Inl err
           | Inr (s2, fx2) \<Rightarrow> Inr (s2, fx1 @ fx2)))"

text \<open>
  The events of one approach to the destination \<open>d\<close>: position samples no farther
  than the clear radius of 2.5 km, and whatever else selects or clears no destination.
\<close>

fun stays_in_approach :: "coordinate \<Rightarrow> event \<Rightarrow> bool" where
  "stays_in_approach d (InitialPosition c) = (distanceKm c d \<le> 2.5)"
| "stays_in_approach d (WatchPosition c) = (distanceKm c d \<le> 2.5)"
| "stays_in_approach d (MapPress _) = False"
| "stays_in_approach d (GeocodeResolved geocode) = (geocode = [])"
| "stays_in_approach d ClearPressed = False"
| "stays_in_approach d _ = True"

section \<open>The screen of \<open>Home.js\<close>\<close>

text \<open>
  The older file keeps the tapped destination (\<open>mcoords\<close>) and the searched one
  (\<open>scoords\<close>) in two cells and has no alert flag. Names it shares with the other file
  carry the suffix \<open>_home\<close>; the local \<open>distance\<close> of its effect is \<open>distance1\<close>.
\<close>

record home_state =
  location_home :: "coordinate option"
  mcoords :: "coordinate option"
  scoords :: "coordinate option"
  errorMsg_home :: "string option"
  searchtext :: js_string

definition initial_home :: home_state where
  "initial_home =
     \<lparr>location_home = None, mcoords = None, scoords = None, errorMsg_home = None,
      searchtext = []\<rparr>"

datatype home_event =
    Position_home coordinate
  | Denied_home
  | Press_home coordinate
  | Text_home js_string
  | Search_home
  | Resolved_home "coordinate list"
  | Rejected_home

definition handlecord :: "coordinate \<Rightarrow> home_state \<Rightarrow> home_state" where
  "handlecord coords s = s\<lparr>mcoords := Some coords\<rparr>"

definition handleSearch_home :: "js_string \<Rightarrow> home_state \<Rightarrow> home_state" where
  "handleSearch_home t s = s\<lparr>searchtext := t\<rparr>"

text \<open>
  \<open>geocode\<close> up to its \<open>await\<close>, and after it: \<open>geocode[0]\<close> of an empty array is
  \<open>undefined\<close>. A rejection leaves the function at the \<open>await\<close>.
\<close>

definition geocode_submit :: "home_state \<Rightarrow> home_state \<times> effect list" where
  "geocode_submit s = (s, [GeocodeAsync (searchtext s)])"

definition geocode_resolved :: "coordinate list \<Rightarrow> home_state \<Rightarrow> home_state" where
  "geocode_resolved geocode s =
     s\<lparr>scoords := (case geocode of [] \<Rightarrow> None | g # _ \<Rightarrow> Some g)\<rparr>"

fun handle_home :: "home_event \<Rightarrow> home_state \<Rightarrow> home_state \<times> effect list" where
  "handle_home (Position_home coords) s = (s\<lparr>location_home := Some coords\<rparr>, [])"
| "handle_home Denied_home s =
     (s\<lparr>errorMsg_home := Some ''Permission to access location was denied''\<rparr>, [])"
| "handle_home (Press_home coords) s = (handlecord coords s, [])"
| "handle_home (Text_home t) s = (handleSearch_home t s, [])"
| "handle_home Search_home s = geocode_submit s"
| "handle_home (Resolved_home geocode) s = (geocode_resolved geocode s, [])"
| "handle_home Rejected_home s = (s, [])"

text \<open>The effect with dependencies \<open>[location, mcoords]\<close>.\<close>

definition distanceEffect_home :: "home_state \<Rightarrow> js_error + home_state \<times> effect list" where
  "distanceEffect_home s =
     (if location_home s \<noteq> None \<and> mcoords s \<noteq> None
      then (case calculateDistance (location_home s) (mcoords s) of
              Inl err \<Rightarrow> Inl err
            | Inr distance1 \<Rightarrow>
                (case calculateDistance (location_home s) (scoords s) of
                   Inl err \<Rightarrow> Inl err
                 | Inr distance2 \<Rightarrow>
                     if le_number distance1 2 \<or> le_number distance2 2
                     then Inr (s, [Vibrate [1000, 500, 1000],
                                   WindowAlert ''Da Mandaaaa, STHALAM EHTARAYI!!!!!''])
                     else Inr (s, [])))
      else Inr (s, []))"

fun changes_dependencies_home :: "home_event \<Rightarrow> bool" where
  "changes_dependencies_home (Position_home _) = True"
| "changes_dependencies_home (Press_home _) = True"
| "changes_dependencies_home _ = False"

definition step_home :: "home_event \<Rightarrow> home_state \<Rightarrow> js_error + home_state \<times> effect list" where
  "step_home e s =
     (case handle_home e s of
        (s1, fx1) \<Rightarrow>
          if changes_dependencies_home e
          then (case distanceEffect_home s1 of
                  Inl err \<Rightarrow> Inl err
                | Inr (s2, fx2) \<Rightarrow> Inr (s2, fx1 @ fx2))
          else Inr (s1, fx1))"

fun run_home :: "home_event list \<Rightarrow> home_state \<Rightarrow> js_error + home_state \<times> effect list" where
  "run_home [] s = Inr (s, [])"
| "run_home (e # es) s =
     (case step_home e s of
        Inl err \<Rightarrow> Inl err
      | Inr (s1, fx1) \<Rightarrow>
          (case run_home es s1 of
             Inl err \<Rightarrow> Inl err
           | Inr (s2, fx2) \<Rightarrow> Inr (s2, fx1 @ fx2)))"

section \<open>Sample points\<close>

text \<open>
  The point on the equator \<open>km\<close> kilometres of arc east of \<open>(0, 0)\<close>, for samples at a
  chosen distance from a destination on the equator.
\<close>

definition equator :: "real \<Rightarrow> coordinate" where
  "equator km = \<lparr>latitude = 0, longitude = km / (6371 * p)\<rparr>"

section \<open>The distance function\<close>

lemma p_pos: "0 < p"
  by (simp add: p_def)

lemma calc_a_central:
  "calc_a x y =
     (1 - (sin (latitude x * p) * sin (latitude y * p)
           + cos (latitude x * p) * cos (latitude y * p)
             * cos ((longitude y - longitude x) * p))) / 2"
proof -
  have "cos ((latitude y - latitude x) * p) = cos (latitude y * p - latitude x * p)"
    by (simp add: algebra_simps)
  also have "\<dots> = cos (latitude y * p) * cos (latitude x * p)
      + sin (latitude y * p) * sin (latitude x * p)"
    by (rule cos_diff)
  finally have key: "cos ((latitude y - latitude x) * p) =
      cos (latitude y * p) * cos (latitude x * p)
      + sin (latitude y * p) * sin (latitude x * p)" .
  show ?thesis
    unfolding calc_a_def Let_def key by (simp add: field_simps)
qed

lemma sin_cos_product_bound:
  fixes u v :: real
  shows "\<bar>sin u * sin v\<bar> + \<bar>cos u * cos v\<bar> \<le> 1"
proof -
  define a b c d
    where "a = \<bar>sin u\<bar>" and "b = \<bar>sin v\<bar>" and "c = \<bar>cos u\<bar>" and "d = \<bar>cos v\<bar>"
  have ac: "a\<^sup>2 + c\<^sup>2 = 1" and bd: "b\<^sup>2 + d\<^sup>2 = 1"
    by (simp_all add: a_def b_def c_def d_def)
  have "(a * b + c * d)\<^sup>2 + (a * d - c * b)\<^sup>2 = (a\<^sup>2 + c\<^sup>2) * (b\<^sup>2 + d\<^sup>2)"
    by (simp add: power2_eq_square algebra_simps)
  also have "\<dots> = 1"
    by (simp add: ac bd)
  finally have eq: "(a * b + c * d)\<^sup>2 + (a * d - c * b)\<^sup>2 = 1" .
  have "0 \<le> (a * d - c * b)\<^sup>2"
    by simp
  with eq have "(a * b + c * d)\<^sup>2 \<le> 1"
    by linarith
  then have "a * b + c * d \<le> 1"
    using power2_le_imp_le [of "a * b + c * d" 1] by simp
  then show ?thesis
    by (simp add: a_def b_def c_def d_def abs_mult)
qed

lemma calc_a_range: "0 \<le> calc_a x y \<and> calc_a x y \<le> 1"
proof -
  define su where "su = sin (latitude x * p) * sin (latitude y * p)"
  define cu where "cu = cos (latitude x * p) * cos (latitude y * p)"
  define w where "w = cos ((longitude y - longitude x) * p)"
  have "\<bar>cu * w\<bar> \<le> \<bar>cu\<bar>"
    using mult_left_le [of "\<bar>w\<bar>" "\<bar>cu\<bar>"] by (simp add: abs_mult w_def mult.commute)
  moreover have "\<bar>su\<bar> + \<bar>cu\<bar> \<le> 1"
    unfolding su_def cu_def by (rule sin_cos_product_bound)
  ultimately have "\<bar>su + cu * w\<bar> \<le> 1"
    by linarith
  moreover have "calc_a x y = (1 - (su + cu * w)) / 2"
    by (simp add: calc_a_central su_def cu_def w_def)
  ultimately show ?thesis
    by (simp add: abs_le_iff)
qed

lemma calculateDistance_Some:
  "calculateDistance (Some x) (Some y) = Inr (Num (distanceKm x y))"
proof -
  have 0: "0 \<le> calc_a x y" and 1: "calc_a x y \<le> 1"
    using calc_a_range by auto
  have "sqrt (calc_a x y) \<le> 1"
    using 1 by simp
  moreover have "- 1 \<le> sqrt (calc_a x y)"
    using 0 by (smt (verit) real_sqrt_ge_zero)
  ultimately show ?thesis
    using 0
    by (simp add: calculateDistance_def Math_sqrt_def Math_asin_def times_number_def
        distanceKm_def)
qed

lemma calc_a_same: "calc_a c c = 0"
  by (simp add: calc_a_def)


lemma distanceKm_same: "distanceKm c c = 0"
  by (simp add: distanceKm_def calc_a_same)


subsection \<open>The haversine form and points on the equator\<close>

lemma half_versine: "(1 - cos t) / 2 = (sin (t / 2))\<^sup>2" for t :: real
  using cos_double_sin [of "t / 2"] by simp

lemma calc_a_haversine:
  "calc_a x y = (sin ((latitude y - latitude x) * p / 2))\<^sup>2
        + cos (latitude x * p) * cos (latitude y * p)
          * (sin ((longitude y - longitude x) * p / 2))\<^sup>2"
proof -
  have "calc_a x y = (1 - cos ((latitude y - latitude x) * p)) / 2
      + cos (latitude x * p) * cos (latitude y * p)
        * ((1 - cos ((longitude y - longitude x) * p)) / 2)"
    by (simp add: calc_a_def Let_def field_simps)
  then show ?thesis
    by (simp only: half_versine)
qed

text \<open>
  On exact real arithmetic the source's expression is the haversine distance on the
  sphere of radius 6371 km. What rounding does to it is the subject of the sections on
  doubles below.
\<close>

lemma distanceKm_haversine: "distanceKm x y = haversine_reference 6371 x y"
  by (simp add: distanceKm_def haversine_reference_def calc_a_haversine)

lemma distanceKm_equator:
  assumes "\<bar>b - a\<bar> \<le> 12742"
  shows "distanceKm (equator a) (equator b) = \<bar>b - a\<bar>"
proof -
  define t where "t = (b - a) / 12742"
  have t_le: "\<bar>t\<bar> \<le> pi / 2"
    using assms pi_ge_two by (simp add: t_def)
  have arg: "(longitude (equator b) - longitude (equator a)) * p = 2 * t"
    using p_pos by (simp add: equator_def t_def field_simps)
  have "calc_a (equator a) (equator b) = (1 - cos (2 * t)) / 2"
    unfolding calc_a_def Let_def arg by (simp add: equator_def)
  also have "\<dots> = (sin t)\<^sup>2"
    by (simp only: cos_double_sin) simp
  finally have "sqrt (calc_a (equator a) (equator b)) = \<bar>sin t\<bar>"
    by simp
  also have "\<dots> = sin \<bar>t\<bar>"
  proof (cases "0 \<le> t")
    case True
    then have "0 \<le> sin t"
      using t_le by (intro sin_ge_zero) (auto simp: abs_le_iff)
    with True show ?thesis by simp
  next
    case False
    then have "0 \<le> sin (- t)"
      using t_le by (intro sin_ge_zero) (auto simp: abs_le_iff)
    with False show ?thesis by simp
  qed
  finally have root: "sqrt (calc_a (equator a) (equator b)) = sin \<bar>t\<bar>" .
  have asin: "arcsin (sin \<bar>t\<bar>) = \<bar>t\<bar>"
    using t_le by (intro arcsin_sin) linarith+
  show ?thesis
    unfolding distanceKm_def root asin by (simp add: t_def)
qed

lemma distanceKm_equator_0 [simp]:
  "0 \<le> b \<Longrightarrow> b \<le> 12742 \<Longrightarrow> distanceKm (equator 0) (equator b) = b"
  using distanceKm_equator [of b 0] by simp

lemma equator_distinct: "equator a = equator b \<longleftrightarrow> a = b"
  using p_pos by (simp add: equator_def)

text \<open>The reference pair \<open>(0, 0)\<close>, \<open>(0, 1)\<close>: one degree of the equator is \<open>6371 * p\<close> km.\<close>

lemma distanceKm_one_degree:
  "distanceKm \<lparr>latitude = 0, longitude = 0\<rparr> \<lparr>latitude = 0, longitude = 1\<rparr> = 6371 * p"
  "\<bar>6371 * p - 111.19\<bar> \<le> 0.5"
proof -
  have 0: "equator 0 = \<lparr>latitude = 0, longitude = 0\<rparr>"
    by (simp add: equator_def)
  have 1: "equator (6371 * p) = \<lparr>latitude = 0, longitude = 1\<rparr>"
    using p_pos by (simp add: equator_def)
  have "\<bar>6371 * p - 0\<bar> \<le> 12742"
    by (simp add: p_def)
  from distanceKm_equator [OF this]
  show "distanceKm \<lparr>latitude = 0, longitude = 0\<rparr> \<lparr>latitude = 0, longitude = 1\<rparr> = 6371 * p"
    using p_pos by (simp add: 0 1)
  show "\<bar>6371 * p - 111.19\<bar> \<le> 0.5"
    by (simp add: p_def)
qed

section \<open>Rounding to the nearest double\<close>

lemma round_even_nearest:
  assumes "\<bar>m - of_int k\<bar> < 1 / 2"
  shows "round_even m = k"
proof (cases "of_int k \<le> m")
  case True
  then have "\<lfloor>m\<rfloor> = k"
    using assms by (intro floor_unique) auto
  then show ?thesis
    using assms True by (simp add: round_even_def)
next
  case False
  then have "\<lfloor>m\<rfloor> = k - 1"
    using assms by (intro floor_unique) auto
  then show ?thesis
    using assms False by (simp add: round_even_def)
qed

lemma round_even_tie:
  assumes "m = of_int f + 1 / 2"
  shows "round_even m = (if even f then f else f + 1)"
proof -
  have "\<lfloor>m\<rfloor> = f"
    using assms by (intro floor_unique) auto
  then show ?thesis
    using assms by (simp add: round_even_def)
qed

lemma round_even_of_int [simp]: "round_even (of_int k) = k"
  by (rule round_even_nearest) simp

lemma binade_eq:
  assumes "2 powr of_int e \<le> \<bar>x\<bar>" and "\<bar>x\<bar> < 2 powr (of_int e + 1)"
  shows "binade x = e"
proof -
  have "0 < \<bar>x\<bar>"
    using assms(1) by (smt (verit) powr_gt_zero)
  then show ?thesis
    unfolding binade_def using assms by (simp add: floor_log_eq_powr_iff)
qed

lemma binade_bounds:
  assumes "x \<noteq> 0"
  shows "2 powr of_int (binade x) \<le> \<bar>x\<bar>" and "\<bar>x\<bar> < 2 powr (of_int (binade x) + 1)"
proof -
  have "0 < \<bar>x\<bar>" using assms by simp
  then have "2 powr of_int (binade x) \<le> \<bar>x\<bar> \<and> \<bar>x\<bar> < 2 powr (of_int (binade x) + 1)"
    using floor_log_eq_powr_iff [of "\<bar>x\<bar>" 2 "binade x"] by (simp add: binade_def)
  then show "2 powr of_int (binade x) \<le> \<bar>x\<bar>" and "\<bar>x\<bar> < 2 powr (of_int (binade x) + 1)"
    by simp_all
qed

lemma two_powr_sub: "(2::real) powr (real m - real n) = 2 ^ m / 2 ^ n"
  by (simp add: powr_diff powr_realpow)

text \<open>A value in the binade with unit \<open>1 / 2 ^ n\<close>.\<close>

lemma ulp_in_binade:
  assumes "2 ^ 52 \<le> \<bar>x\<bar> * 2 ^ n" and "\<bar>x\<bar> * 2 ^ n < 2 ^ 53"
  shows "ulp x = 1 / 2 ^ n"
proof -
  have lo: "2 powr of_int (52 - int n) \<le> \<bar>x\<bar>"
  proof -
    have "(2::real) powr of_int (52 - int n) = 2 powr (real 52 - real n)"
      by simp
    also have "\<dots> = 2 ^ 52 / 2 ^ n"
      by (rule two_powr_sub)
    also have "\<dots> \<le> \<bar>x\<bar>"
      using assms(1) by (simp add: field_simps)
    finally show ?thesis .
  qed
  have hi: "\<bar>x\<bar> < 2 powr (of_int (52 - int n) + 1)"
  proof -
    have "(2::real) powr (of_int (52 - int n) + 1) = 2 powr (real 53 - real n)"
      by simp
    also have "\<dots> = 2 ^ 53 / 2 ^ n"
      by (rule two_powr_sub)
    finally have eq: "(2::real) powr (of_int (52 - int n) + 1) = 2 ^ 53 / 2 ^ n" .
    have "\<bar>x\<bar> < 2 ^ 53 / 2 ^ n"
      using assms(2) by (simp add: field_simps)
    then show ?thesis
      by (simp only: eq)
  qed
  have "binade x = 52 - int n"
    using lo hi by (rule binade_eq)
  moreover have "(2::real) powr (of_int (52 - int n) - 52) = 2 powr (real 0 - real n)"
    by simp
  ultimately show ?thesis
    by (simp only: ulp_def two_powr_sub) simp
qed

lemma fl_nearest:
  assumes "2 ^ 52 \<le> \<bar>x\<bar> * 2 ^ n" and "\<bar>x\<bar> * 2 ^ n < 2 ^ 53"
    and "\<bar>x * 2 ^ n - of_int k\<bar> < 1 / 2"
  shows "fl x = of_int k / 2 ^ n"
proof -
  have "x \<noteq> 0" using assms(1) by auto
  moreover have "ulp x = 1 / 2 ^ n"
    using assms(1,2) by (rule ulp_in_binade)
  ultimately show ?thesis
    using round_even_nearest [OF assms(3)] by (simp add: fl_def)
qed

lemma fl_tie:
  assumes "2 ^ 52 \<le> \<bar>x\<bar> * 2 ^ n" and "\<bar>x\<bar> * 2 ^ n < 2 ^ 53"
    and "x * 2 ^ n = of_int f + 1 / 2"
  shows "fl x = of_int (if even f then f else f + 1) / 2 ^ n"
proof -
  have "x \<noteq> 0" using assms(1) by auto
  moreover have "ulp x = 1 / 2 ^ n"
    using assms(1,2) by (rule ulp_in_binade)
  ultimately show ?thesis
    using round_even_tie [OF assms(3)] by (simp add: fl_def)
qed

lemma fl_exact:
  assumes "2 ^ 52 \<le> \<bar>k\<bar>" and "\<bar>k\<bar> < 2 ^ 53"
  shows "fl (of_int k / 2 ^ n) = of_int k / 2 ^ n"
proof (rule fl_nearest)
  show "2 ^ 52 \<le> \<bar>of_int k / 2 ^ n :: real\<bar> * 2 ^ n"
  proof -
    have "\<bar>of_int k / 2 ^ n :: real\<bar> * 2 ^ n = of_int \<bar>k\<bar>" by simp
    also have "(2 ^ 52 :: real) \<le> of_int \<bar>k\<bar>"
      using assms(1) by (metis of_int_le_iff of_int_numeral of_int_power)
    finally show ?thesis by simp
  qed
  show "\<bar>of_int k / 2 ^ n :: real\<bar> * 2 ^ n < 2 ^ 53"
  proof -
    have "(of_int \<bar>k\<bar> :: real) < 2 ^ 53"
      using assms(2) by (metis of_int_less_iff of_int_numeral of_int_power)
    then show ?thesis by simp
  qed
  show "\<bar>of_int k / 2 ^ n * 2 ^ n - (of_int k :: real)\<bar> < 1 / 2"
    by simp
qed

lemma fl_0 [simp]: "fl 0 = 0"
  by (simp add: fl_def)

lemma fl_1 [simp]: "fl 1 = 1"
  using fl_exact [of "2 ^ 52" 52] by simp

lemma fl_half [simp]: "fl (1 / 2) = 1 / 2"
  using fl_exact [of "2 ^ 52" 53] by simp

lemma fl_between:
  assumes "2 ^ 52 < \<bar>k\<bar>" and "\<bar>k\<bar> < 2 ^ 53"
    and "(of_int k - 1 / 2) / 2 ^ n < x" and "x < (of_int k + 1 / 2) / 2 ^ n"
  shows "fl x = of_int k / 2 ^ n"
proof (rule fl_nearest)
  have lo: "of_int k - 1 / 2 < x * 2 ^ n" and hi: "x * 2 ^ n < of_int k + 1 / 2"
    using assms(3,4) by (simp_all add: field_simps)
  then show near: "\<bar>x * 2 ^ n - of_int k\<bar> < 1 / 2"
    by linarith
  have k1: "(2 ^ 52 :: real) + 1 \<le> \<bar>of_int k\<bar>"
  proof -
    have "(2 ^ 52 :: int) + 1 \<le> \<bar>k\<bar>" using assms(1) by simp
    then have "of_int ((2 ^ 52 :: int) + 1) \<le> (of_int \<bar>k\<bar> :: real)"
      by (simp only: of_int_le_iff)
    then show ?thesis by simp
  qed
  have k2: "\<bar>of_int k\<bar> \<le> (2 ^ 53 :: real) - 1"
  proof -
    have "\<bar>k\<bar> \<le> (2 ^ 53 :: int) - 1" using assms(2) by simp
    then have "(of_int \<bar>k\<bar> :: real) \<le> of_int ((2 ^ 53 :: int) - 1)"
      by (simp only: of_int_le_iff)
    then show ?thesis by simp
  qed
  have abs: "\<bar>x * 2 ^ n\<bar> = \<bar>x\<bar> * 2 ^ n"
    by (simp add: abs_mult)
  show "2 ^ 52 \<le> \<bar>x\<bar> * 2 ^ n"
    using near k1 unfolding abs [symmetric] by linarith
  show "\<bar>x\<bar> * 2 ^ n < 2 ^ 53"
    using near k2 unfolding abs [symmetric] by linarith
qed

lemma fl_near_one:
  assumes "1 - 1 / 2 ^ 54 < x" and "x \<le> 1"
  shows "fl x = 1"
proof (cases "x = 1")
  case True
  then show ?thesis by simp
next
  case False
  have "fl x = of_int (2 ^ 53) / 2 ^ 53"
  proof (rule fl_nearest)
    show "2 ^ 52 \<le> \<bar>x\<bar> * 2 ^ 53" using assms by simp
    show "\<bar>x\<bar> * 2 ^ 53 < 2 ^ 53" using assms False by simp
    show "\<bar>x * 2 ^ 53 - of_int (2 ^ 53)\<bar> < 1 / 2" using assms by simp
  qed
  then show ?thesis by simp
qed

lemma fl_near_minus_one:
  assumes "- 1 \<le> x" and "x < - 1 + 1 / 2 ^ 54"
  shows "fl x = - 1"
proof (cases "x = - 1")
  case True
  have "fl (of_int (- (2 ^ 52)) / 2 ^ 52) = of_int (- (2 ^ 52)) / 2 ^ 52"
    by (rule fl_exact) simp_all
  with True show ?thesis by simp
next
  case False
  have "fl x = of_int (- (2 ^ 53)) / 2 ^ 53"
  proof (rule fl_nearest)
    show "2 ^ 52 \<le> \<bar>x\<bar> * 2 ^ 53" using assms by simp
    show "\<bar>x\<bar> * 2 ^ 53 < 2 ^ 53" using assms False by simp
    show "\<bar>x * 2 ^ 53 - of_int (- (2 ^ 53))\<bar> < 1 / 2" using assms by simp
  qed
  then show ?thesis by simp
qed

lemma fl_p: "fl 0.017453292519943295 = 5030569068109113 / 2 ^ 58"
  using fl_nearest [of "0.017453292519943295" 58 5030569068109113] by simp

text \<open>The relative error of one rounding is at most \<open>2 ^ - 53\<close>.\<close>

lemma round_even_error: "\<bar>of_int (round_even m) - m\<bar> \<le> 1 / 2"
proof -
  have "of_int \<lfloor>m\<rfloor> \<le> m" and "m < of_int \<lfloor>m\<rfloor> + 1"
    by linarith+
  then show ?thesis
    by (auto simp add: round_even_def Let_def)
qed

lemma ulp_pos: "0 < ulp x"
  by (simp add: ulp_def)

lemma ulp_le:
  assumes "x \<noteq> 0"
  shows "ulp x \<le> \<bar>x\<bar> / 2 ^ 52"
proof -
  have "ulp x = 2 powr of_int (binade x) / 2 powr 52"
    by (simp add: ulp_def powr_diff)
  also have "\<dots> = 2 powr of_int (binade x) / 2 ^ 52"
    by simp
  also have "\<dots> \<le> \<bar>x\<bar> / 2 ^ 52"
    using binade_bounds(1) [OF assms] by (simp add: divide_right_mono)
  finally show ?thesis .
qed

lemma fl_error: "\<bar>fl x - x\<bar> \<le> \<bar>x\<bar> / 2 ^ 53"
proof (cases "x = 0")
  case True
  then show ?thesis by simp
next
  case False
  define u where "u = ulp x"
  have u: "0 < u"
    unfolding u_def by (rule ulp_pos)
  have "fl x - x = (of_int (round_even (x / u)) - x / u) * u"
    using False u by (simp add: fl_def u_def field_simps)
  then have "\<bar>fl x - x\<bar> = \<bar>of_int (round_even (x / u)) - x / u\<bar> * u"
    using u by (simp add: abs_mult)
  also have "\<dots> \<le> 1 / 2 * u"
    using round_even_error [of "x / u"] u by (intro mult_right_mono) simp_all
  also have "\<dots> \<le> 1 / 2 * (\<bar>x\<bar> / 2 ^ 52)"
    using ulp_le [OF False] by (simp add: u_def)
  finally show ?thesis
    by simp
qed

lemma fl_interval:
  assumes "0 \<le> lo" and "lo \<le> x" and "x \<le> hi"
  shows "lo * (1 - 1 / 2 ^ 53) \<le> fl x \<and> fl x \<le> hi * (1 + 1 / 2 ^ 53)"
proof -
  define e :: real where "e = 1 / 2 ^ 53"
  have e: "0 \<le> e" and e1: "0 \<le> 1 - e"
    by (simp_all add: e_def)
  have "\<bar>x\<bar> / 2 ^ 53 = x * e"
    using assms by (simp add: e_def)
  then have "\<bar>fl x - x\<bar> \<le> x * e"
    using fl_error [of x] by simp
  then have "x - x * e \<le> fl x" and "fl x \<le> x + x * e"
    by (simp_all add: abs_le_iff)
  then have "x * (1 - e) \<le> fl x" and "fl x \<le> x * (1 + e)"
    by (simp_all add: algebra_simps)
  moreover have "lo * (1 - e) \<le> x * (1 - e)"
    using assms e1 by (intro mult_right_mono)
  moreover have "x * (1 + e) \<le> hi * (1 + e)"
    using assms e by (intro mult_right_mono) simp_all
  ultimately show ?thesis
    unfolding e_def by (meson order_trans)
qed

lemma fl_within:
  assumes "lo \<le> x \<and> x \<le> hi" and "0 \<le> lo"
    and "lo' \<le> lo * (1 - 1 / 2 ^ 53)" and "hi * (1 + 1 / 2 ^ 53) \<le> hi'"
  shows "lo' \<le> fl x \<and> fl x \<le> hi'"
  using fl_interval [of lo x hi] assms by (meson order_trans)

lemma sin_coeff_sum_3: "(\<Sum>m<3. sin_coeff m * x ^ m) = x" for x :: real
  by (simp add: numeral_3_eq_3 sin_coeff_def)

lemma sin_cubic_bound: "\<bar>sin x - x\<bar> \<le> \<bar>x\<bar> ^ 3 / 6" for x :: real
proof -
  have "inverse (fact 3) * \<bar>x\<bar> ^ 3 = \<bar>x\<bar> ^ 3 / 6"
    by (simp add: fact_numeral)
  then show ?thesis
    using Maclaurin_sin_bound [of x 3] by (simp only: sin_coeff_sum_3)
qed

lemma arcsin_within:
  assumes "lo \<le> y \<and> y \<le> hi" and "0 \<le> lo" and "hi \<le> z - z ^ 3 / 6"
    and z0: "0 \<le> z" and "z \<le> 1"
  shows "lo \<le> arcsin y \<and> arcsin y \<le> z"
proof -
  have zpi: "z \<le> pi / 2"
    using assms(5) pi_ge_two by linarith
  have y01: "0 \<le> y" "y \<le> 1"
  proof -
    show "0 \<le> y" using assms by linarith
    have "0 \<le> z ^ 3 / 6" using z0 by simp
    then show "y \<le> 1" using assms by linarith
  qed
  have "\<bar>sin z - z\<bar> \<le> z ^ 3 / 6"
    using sin_cubic_bound [of z] z0 by simp
  then have "z - z ^ 3 / 6 \<le> sin z"
    by linarith
  then have "y \<le> sin z"
    using assms by linarith
  then have up: "arcsin y \<le> z"
    using arcsin_le_iff [of y z] y01 z0 zpi by simp
  have a0: "0 \<le> arcsin y"
    using y01 by (intro arcsin_nonneg) simp
  have "sin (arcsin y) \<le> arcsin y"
    using a0 by (rule sin_x_le_x)
  then have "y \<le> arcsin y"
    using y01 by simp
  then show ?thesis
    using assms up by linarith
qed

lemma sqrt_within:
  assumes "lo \<le> x \<and> x \<le> hi" and "0 \<le> l" and "l\<^sup>2 \<le> lo" and "0 \<le> h" and "hi \<le> h\<^sup>2"
  shows "l \<le> sqrt x \<and> sqrt x \<le> h"
proof
  show "l \<le> sqrt x"
    using assms by (intro real_le_rsqrt) linarith
  show "sqrt x \<le> h"
    using assms by (intro real_le_lsqrt) linarith+
qed

subsection \<open>Enclosing the cosine\<close>

lemma cos_Maclaurin_bound:
  "\<bar>cos x - (\<Sum>m<n. cos_coeff m * x ^ m)\<bar> \<le> \<bar>x\<bar> ^ n / fact n"
proof -
  obtain t where
    eq: "cos x = (\<Sum>m<n. cos_coeff m * x ^ m) + (cos (t + 1 / 2 * real n * pi) / fact n) * x ^ n"
    using Maclaurin_cos_expansion [of x n] by blast
  have "\<bar>cos x - (\<Sum>m<n. cos_coeff m * x ^ m)\<bar>
      = \<bar>cos (t + 1 / 2 * real n * pi)\<bar> * (\<bar>x\<bar> ^ n / fact n)"
    by (simp add: eq abs_mult power_abs)
  also have "\<dots> \<le> 1 * (\<bar>x\<bar> ^ n / fact n)"
    by (intro mult_right_mono) simp_all
  finally show ?thesis by simp
qed

lemma cos_coeff_sum_even:
  "(\<Sum>m<2 * k. cos_coeff m * x ^ m) = (\<Sum>j<k. (- 1) ^ j * (x\<^sup>2) ^ j / fact (2 * j))"
proof (induction k)
  case 0
  show ?case by simp
next
  case (Suc k)
  have "(\<Sum>m<2 * Suc k. cos_coeff m * x ^ m)
      = (\<Sum>m<2 * k. cos_coeff m * x ^ m) + cos_coeff (2 * k) * x ^ (2 * k)
        + cos_coeff (Suc (2 * k)) * x ^ Suc (2 * k)"
    by simp
  also have "cos_coeff (2 * k) = (- 1) ^ k / fact (2 * k)"
    by (simp add: cos_coeff_def)
  also have "cos_coeff (Suc (2 * k)) = 0"
    by (simp add: cos_coeff_def)
  finally show ?case
    by (simp add: Suc.IH power_mult)
qed

lemma cos_horner_sum:
  "cos_horner k (real i) y = (\<Sum>j<k. (- 1) ^ j * y ^ j * fact (2 * i) / fact (2 * i + 2 * j))"
proof (induction k arbitrary: i)
  case 0
  show ?case by simp
next
  case (Suc k)
  have "cos_horner (Suc k) (real i) y
      = 1 - y / ((2 * real i + 1) * (2 * real i + 2)) * cos_horner k (real (Suc i)) y"
    by (simp add: add.commute)
  also have "cos_horner k (real (Suc i)) y
      = (\<Sum>j<k. (- 1) ^ j * y ^ j * fact (2 * Suc i) / fact (2 * Suc i + 2 * j))"
    by (rule Suc.IH)
  also have "1 - y / ((2 * real i + 1) * (2 * real i + 2))
        * (\<Sum>j<k. (- 1) ^ j * y ^ j * fact (2 * Suc i) / fact (2 * Suc i + 2 * j))
      = 1 + (\<Sum>j<k. (- 1) ^ Suc j * y ^ Suc j * fact (2 * i) / fact (2 * i + 2 * Suc j))"
  proof -
    have "y / ((2 * real i + 1) * (2 * real i + 2))
          * ((- 1) ^ j * y ^ j * fact (2 * Suc i) / fact (2 * Suc i + 2 * j))
        = - ((- 1) ^ Suc j * y ^ Suc j * fact (2 * i) / fact (2 * i + 2 * Suc j))" for j
    proof -
      define F :: real where "F = fact (2 * i)"
      define G :: real where "G = fact (2 * i + 2 * Suc j)"
      define a :: real where "a = (2 * real i + 1) * (2 * real i + 2)"
      have a: "a \<noteq> 0"
        unfolding a_def by (simp add: add_nonneg_eq_0_iff)
      have 1: "(fact (2 * Suc i) :: real) = a * F"
        by (simp add: a_def F_def algebra_simps)
      have 2: "(fact (2 * Suc i + 2 * j) :: real) = G"
        by (simp add: G_def)
      have "y / a * ((- 1) ^ j * y ^ j * (a * F) / G) = - ((- 1) ^ Suc j * y ^ Suc j * F / G)"
        using a by simp
      then show ?thesis
        unfolding 1 2 a_def F_def G_def .
    qed
    then have "y / ((2 * real i + 1) * (2 * real i + 2))
          * (\<Sum>j<k. (- 1) ^ j * y ^ j * fact (2 * Suc i) / fact (2 * Suc i + 2 * j))
        = - (\<Sum>j<k. (- 1) ^ Suc j * y ^ Suc j * fact (2 * i) / fact (2 * i + 2 * Suc j))"
      by (simp only: sum_distrib_left sum_negf)
    then show ?thesis
      by simp
  qed
  also have "\<dots> = (\<Sum>j<Suc k. (- 1) ^ j * y ^ j * fact (2 * i) / fact (2 * i + 2 * j))"
  proof -
    let ?f = "\<lambda>j. (- 1) ^ j * y ^ j * fact (2 * i) / (fact (2 * i + 2 * j) :: real)"
    have "(\<Sum>j<Suc k. ?f j) = ?f 0 + (\<Sum>j<k. ?f (Suc j))"
      by (rule sum.lessThan_Suc_shift)
    moreover have "?f 0 = 1"
      by simp
    ultimately show ?thesis
      by (simp only:)
  qed
  finally show ?case .
qed

lemma cos_horner_bound:
  "\<bar>cos x - cos_horner k 0 (x\<^sup>2)\<bar> \<le> \<bar>x\<bar> ^ (2 * k) / fact (2 * k)"
proof -
  have "cos_horner k 0 (x\<^sup>2) = (\<Sum>m<2 * k. cos_coeff m * x ^ m)"
    using cos_horner_sum [of k 0 "x\<^sup>2"] by (simp add: cos_coeff_sum_even)
  then show ?thesis
    using cos_Maclaurin_bound [of x "2 * k"] by simp
qed

lemma cos_horner_step:
  assumes "A \<le> cos_horner k (i + 1) y \<and> cos_horner k (i + 1) y \<le> B"
    and "0 \<le> A" and "0 \<le> yl" and "yl \<le> y" and "y \<le> yu" and "0 \<le> i"
    and "lo \<le> 1 - yu * B / ((2 * i + 1) * (2 * i + 2))"
    and "1 - yl * A / ((2 * i + 1) * (2 * i + 2)) \<le> hi"
  shows "lo \<le> cos_horner (Suc k) i y \<and> cos_horner (Suc k) i y \<le> hi"
proof -
  define h where "h = cos_horner k (i + 1) y"
  define d where "d = (2 * i + 1) * (2 * i + 2)"
  have d: "0 < d" using assms(6) by (simp add: d_def)
  have h: "A \<le> h" "h \<le> B" using assms(1) by (simp_all add: h_def)
  have "yl * A \<le> y * h"
    using assms(2-4) h by (intro mult_mono) simp_all
  then have 1: "yl * A / d \<le> y * h / d"
    using d by (simp add: divide_right_mono)
  have "y * h \<le> yu * B"
    using assms(2-5) h by (intro mult_mono) simp_all
  then have 2: "y * h / d \<le> yu * B / d"
    using d by (simp add: divide_right_mono)
  have "cos_horner (Suc k) i y = 1 - y * h / d"
    by (simp add: h_def d_def)
  then show ?thesis
    using 1 2 assms(7,8) unfolding d_def by linarith
qed

lemma cos_horner_interval:
  assumes "A \<le> cos_horner k j y \<and> cos_horner k j y \<le> B"
    and "j = i + 1" and "k' = Suc k" and "0 \<le> A" and "0 \<le> yl"
    and "yl \<le> y \<and> y \<le> yu" and "0 \<le> i"
    and "lo \<le> 1 - yu * B / ((2 * i + 1) * (2 * i + 2))"
    and "1 - yl * A / ((2 * i + 1) * (2 * i + 2)) \<le> hi"
  shows "lo \<le> cos_horner k' i y \<and> cos_horner k' i y \<le> hi"
  unfolding assms(3)
  using assms(1,4,5,6,7,8,9) unfolding assms(2)
  by (intro cos_horner_step [where A = A and B = B and yl = yl and yu = yu]) simp_all

section \<open>The distance function on doubles\<close>

lemma p_double_value: "p_double = 5030569068109113 / 2 ^ 58"
  unfolding p_double_def by (rule fl_p)


lemma calc_a_double_trace:
  assumes "fl (latitude c2 - latitude c1) = dphi" and "fl (dphi * p_double) = xphi"
    and "fl (cos xphi) = cphi" and "fl (cphi / 2) = h" and "fl (1 / 2 - h) = u"
    and "fl (latitude c1 * p_double) = ta" and "fl (latitude c2 * p_double) = tb"
    and "fl (cos ta) = ca" and "fl (cos tb) = cb" and "fl (ca * cb) = cc"
    and "fl (longitude c2 - longitude c1) = dlam" and "fl (dlam * p_double) = w"
    and "fl (cos w) = cw" and "fl (1 - cw) = om" and "fl (cc * om) = pr"
    and "fl (pr / 2) = v" and "fl (u + v) = a"
  shows "calc_a_double c1 c2 = a"
  unfolding calc_a_double_def Let_def Math_cos_double_def
  by (simp only: assms)

lemma calc_a_double_same: "calc_a_double c c = 0"
  by (simp add: calc_a_double_def Let_def Math_cos_double_def)

lemma calculateDistance_double_same:
  "calculateDistance_double (Some a) (Some a) = Inr (Num 0)"
  by (simp add: calculateDistance_double_def calc_a_double_same Math_sqrt_double_def
      Math_asin_double_def times_double_def)

lemma fl_cos_tiny:
  assumes "x\<^sup>2 < 1 / 2 ^ 53"
  shows "fl (cos x) = 1"
proof (rule fl_near_one)
  have "\<bar>cos x - cos_horner 1 0 (x\<^sup>2)\<bar> \<le> \<bar>x\<bar> ^ (2 * 1) / fact (2 * 1)"
    by (rule cos_horner_bound)
  then have "\<bar>cos x - 1\<bar> \<le> x\<^sup>2 / 2"
    by simp
  then show "1 - 1 / 2 ^ 54 < cos x"
    using assms by (simp add: abs_le_iff)
  show "cos x \<le> 1"
    by simp
qed

lemma calc_a_double_tiny:
  "calc_a_double \<lparr>latitude = 0, longitude = 0\<rparr> \<lparr>latitude = 0, longitude = 1 / 2 ^ 21\<rparr> = 0"
proof -
  have 1: "fl (1 / 2 ^ 21) = 1 / 2 ^ 21"
    using fl_exact [of "2 ^ 52" 73] by simp
  have 2: "fl (1 / 2 ^ 21 * p_double) = 5030569068109113 / 2 ^ 79"
    using fl_exact [of 5030569068109113 79] by (simp add: p_double_value)
  have 3: "fl (cos (5030569068109113 / 2 ^ 79)) = 1"
    by (rule fl_cos_tiny) (simp add: power2_eq_square)
  show ?thesis
    by (rule calc_a_double_trace [where dphi = 0 and xphi = 0 and cphi = 1 and h = "1 / 2"
          and u = 0 and ta = 0 and tb = 0 and ca = 1 and cb = 1 and cc = 1
          and dlam = "1 / 2 ^ 21" and w = "5030569068109113 / 2 ^ 79" and cw = 1 and om = 0
          and pr = 0 and v = 0])
      (use 1 2 3 in simp_all)
qed

lemma calculateDistance_double_tiny:
  "calculateDistance_double (Some \<lparr>latitude = 0, longitude = 0\<rparr>)
     (Some \<lparr>latitude = 0, longitude = 1 / 2 ^ 21\<rparr>) = Inr (Num 0)"
  by (simp only: calculateDistance_double_def option.case calc_a_double_tiny)
    (simp add: Math_sqrt_double_def Math_asin_double_def times_double_def)

lemma fl_p_double: "fl p_double = p_double"
  using fl_exact [of 5030569068109113 58] by (simp add: p_double_value)

lemma calc_a_double_one_degree:
  "calc_a_double \<lparr>latitude = 0, longitude = 0\<rparr> \<lparr>latitude = 0, longitude = 1\<rparr>
     = fl (fl (fl (fl (1 - fl (cos p_double))) / 2))"
  by (rule calc_a_double_trace [where dphi = 0 and xphi = 0 and cphi = 1 and h = "1 / 2"
        and u = 0 and ta = 0 and tb = 0 and ca = 1 and cb = 1 and cc = 1
        and dlam = 1 and w = p_double and cw = "fl (cos p_double)"
        and om = "fl (1 - fl (cos p_double))" and pr = "fl (fl (1 - fl (cos p_double)))"
        and v = "fl (fl (fl (1 - fl (cos p_double))) / 2)"])
    (simp_all add: fl_p_double)

lemma cos_p_double: "0.9998476 \<le> cos p_double \<and> cos p_double \<le> 0.9998478"
proof -
  define q where "q = 1 - p_double\<^sup>2 / 2"
  have "\<bar>cos p_double - cos_horner 2 0 (p_double\<^sup>2)\<bar> \<le> \<bar>p_double\<bar> ^ (2 * 2) / fact (2 * 2)"
    by (rule cos_horner_bound)
  moreover have "cos_horner 2 0 (p_double\<^sup>2) = q"
    by (simp add: numeral_2_eq_2 q_def)
  moreover have "\<bar>p_double\<bar> ^ (2 * 2) / fact (2 * 2) \<le> 1 / 10 ^ 8"
    by (simp add: p_double_value fact_numeral power_divide)
  ultimately have "\<bar>cos p_double - q\<bar> \<le> 1 / 10 ^ 8"
    by (simp only: order_trans)
  then have "q - 1 / 10 ^ 8 \<le> cos p_double \<and> cos p_double \<le> q + 1 / 10 ^ 8"
    by (simp only: abs_diff_le_iff)
  moreover have "0.99984761 \<le> q" and "q \<le> 0.99984779"
    by (simp_all add: q_def p_double_value power2_eq_square)
  ultimately show ?thesis
    by simp
qed

lemma one_degree_double:
  "\<exists>v. calculateDistance_double (Some \<lparr>latitude = 0, longitude = 0\<rparr>)
          (Some \<lparr>latitude = 0, longitude = 1\<rparr>) = Inr (Num v)
       \<and> \<bar>v - 111.19\<bar> \<le> 0.5"
proof -
  define cw where "cw = fl (cos p_double)"
  define om where "om = fl (1 - cw)"
  define pr where "pr = fl om"
  define v where "v = fl (pr / 2)"
  define a where "a = fl v"
  define s where "s = fl (sqrt a)"
  define t where "t = fl (arcsin s)"
  define r where "r = fl (12742 * t)"
  have cw: "0.99984759 \<le> cw \<and> cw \<le> 0.99984781"
    unfolding cw_def by (rule fl_within [OF cos_p_double]) simp_all
  then have "0.00015219 \<le> 1 - cw \<and> 1 - cw \<le> 0.00015241"
    by simp
  then have om: "0.00015218 \<le> om \<and> om \<le> 0.00015242"
    unfolding om_def by (rule fl_within) simp_all
  then have pr: "0.00015217 \<le> pr \<and> pr \<le> 0.00015243"
    unfolding pr_def by (rule fl_within) simp_all
  then have "0.000076085 \<le> pr / 2 \<and> pr / 2 \<le> 0.000076215"
    by simp
  then have v: "0.00007608 \<le> v \<and> v \<le> 0.00007622"
    unfolding v_def by (rule fl_within) simp_all
  then have a: "0.00007607 \<le> a \<and> a \<le> 0.00007623"
    unfolding a_def by (rule fl_within) simp_all
  then have "0.00872 \<le> sqrt a \<and> sqrt a \<le> 0.008732"
    by (rule sqrt_within) (simp_all add: power2_eq_square)
  then have s: "0.008719 \<le> s \<and> s \<le> 0.008733"
    unfolding s_def by (rule fl_within) simp_all
  then have "0.008719 \<le> arcsin s \<and> arcsin s \<le> 0.008734"
    by (rule arcsin_within) (simp_all add: power3_eq_cube)
  then have t: "0.008718 \<le> t \<and> t \<le> 0.008735"
    unfolding t_def by (rule fl_within) simp_all
  then have "111.08 \<le> 12742 * t \<and> 12742 * t \<le> 111.31"
    by simp
  then have r: "111.07 \<le> r \<and> r \<le> 111.32"
    unfolding r_def by (rule fl_within) simp_all
  have "calc_a_double \<lparr>latitude = 0, longitude = 0\<rparr> \<lparr>latitude = 0, longitude = 1\<rparr> = a"
    by (simp only: calc_a_double_one_degree a_def v_def pr_def om_def cw_def)
  moreover have "Math_sqrt_double a = Num s"
    using a by (simp add: Math_sqrt_double_def s_def)
  moreover have "Math_asin_double (Num s) = Num t"
    using s by (simp add: Math_asin_double_def t_def)
  moreover have "times_double 12742 (Num t) = Num r"
    by (simp add: times_double_def r_def)
  ultimately have
    "calculateDistance_double (Some \<lparr>latitude = 0, longitude = 0\<rparr>)
       (Some \<lparr>latitude = 0, longitude = 1\<rparr>) = Inr (Num r)"
    by (simp only: calculateDistance_double_def option.case)
  moreover have "111.19 - 0.5 \<le> r \<and> r \<le> 111.19 + 0.5"
    using r by simp
  then have "\<bar>r - 111.19\<bar> \<le> 0.5"
    by (simp only: abs_diff_le_iff)
  ultimately show ?thesis
    by blast
qed

subsection \<open>A nearly antipodal pair\<close>

text \<open>
  The points \<open>(64.40625, 0)\<close> and \<open>(- 64.40625 + 17 / 2 ^ 46, 180)\<close>. The three cosines of
  the latitudes are enclosed tightly enough to fix their roundings; the cosine of the
  longitude difference rounds to \<open>- 1\<close>.
\<close>

lemma cos_bracket_dphi:
  "(- 5645476698982023 - 1 / 2) / 2 ^ 53 < cos ((- (316406336955959 / 2 ^ 47)) :: real) \<and>
      cos ((- (316406336955959 / 2 ^ 47)) :: real) < (- 5645476698982023 + 1 / 2) / 2 ^ 53"
proof -
  define x :: real where "x = (316406336955959 / 2 ^ 47)"
  define y :: real where "y = x\<^sup>2"
  have y: "(100112970065887866026305609681 / 2 ^ 94) \<le> y \<and> y \<le>
      (100112970065887866026305609681 / 2 ^ 94)"
    by (simp add: y_def x_def power_divide)
  have b0: "0 \<le> cos_horner 0 14 y \<and> cos_horner 0 14 y \<le> 0"
    by simp
  have b1: "1 \<le> cos_horner 1 13 y \<and> cos_horner 1 13 y \<le> 1"
    by (rule cos_horner_interval [OF b0 _ _ _ _ y]) simp_all
  have b2: "(628896661587794067343979634211 / 2 ^ 99) \<le> cos_horner 2 12 y \<and> cos_horner 2
      12 y \<le> (1257793323175588134687959268423 / 2 ^ 100)"
    by (rule cos_horner_interval [OF b1 _ _ _ _ y]) simp_all
  have b3: "(1256133557960581437912513013231 / 2 ^ 100) \<le> cos_horner 3 11 y \<and> cos_horner
      3 11 y \<le> (78508347372536339869532063327 / 2 ^ 96)"
    by (rule cos_horner_interval [OF b2 _ _ _ _ y]) simp_all
  have b4: "(1253908136608480675601912477411 / 2 ^ 100) \<le> cos_horner 4 10 y \<and> cos_horner
      4 10 y \<le> (313477034152120168900478119353 / 2 ^ 98)"
    by (rule cos_horner_interval [OF b3 _ _ _ _ y]) simp_all
  have b5: "(312743064535353464751975159295 / 2 ^ 98) \<le> cos_horner 5 9 y \<and> cos_horner 5
      9 y \<le> (1250972258141413859007900637181 / 2 ^ 100)"
    by (rule cos_horner_interval [OF b4 _ _ _ _ y]) simp_all
  have b6: "(1246987427516635454893373054885 / 2 ^ 100) \<le> cos_horner 6 8 y \<and> cos_horner
      6 8 y \<le> (623493713758317727446686527443 / 2 ^ 99)"
    by (rule cos_horner_interval [OF b5 _ _ _ _ y]) simp_all
  have b7: "(38793405492972896782463578335 / 2 ^ 95) \<le> cos_horner 7 7 y \<and> cos_horner 7 7
      y \<le> (1241388975775132697038834506721 / 2 ^ 100)"
    by (rule cos_horner_interval [OF b6 _ _ _ _ y]) simp_all
  have b8: "(1233175364076217878622587304593 / 2 ^ 100) \<le> cos_horner 8 6 y \<and> cos_horner
      8 6 y \<le> (616587682038108939311293652297 / 2 ^ 99)"
    by (rule cos_horner_interval [OF b7 _ _ _ _ y]) simp_all
  have b9: "(305107767497861627648657710601 / 2 ^ 98) \<le> cos_horner 9 5 y \<and> cos_horner 9
      5 y \<le> (1220431069991446510594630842405 / 2 ^ 100)"
    by (rule cos_horner_interval [OF b8 _ _ _ _ y]) simp_all
  have b10: "(599555505328415706372627222999 / 2 ^ 99) \<le> cos_horner 10 4 y \<and> cos_horner
      10 4 y \<le> (1199111010656831412745254445999 / 2 ^ 100)"
    by (rule cos_horner_interval [OF b9 _ _ _ _ y]) simp_all
  have b11: "(579710990565433260205026388809 / 2 ^ 99) \<le> cos_horner 11 3 y \<and> cos_horner
      11 3 y \<le> (1159421981130866520410052777619 / 2 ^ 100)"
    by (rule cos_horner_interval [OF b10 _ _ _ _ y]) simp_all
  have b12: "(536155334950915831192375905373 / 2 ^ 99) \<le> cos_horner 12 2 y \<and> cos_horner
      12 2 y \<le> (1072310669901831662384751810747 / 2 ^ 100)"
    by (rule cos_horner_interval [OF b11 _ _ _ _ y]) simp_all
  have b13: "(815992155425909635813472763163 / 2 ^ 100) \<le> cos_horner 13 1 y \<and> cos_horner
      13 1 y \<le> (815992155425909635813472763165 / 2 ^ 100)"
    by (rule cos_horner_interval [OF b12 _ _ _ _ y]) simp_all
  have b14: "(- (397265105591628995777146877875 / 2 ^ 99)) \<le> cos_horner 14 0 y \<and>
      cos_horner 14 0 y \<le> (- (24829069099476812236071679867 / 2 ^ 95))"
    by (rule cos_horner_interval [OF b13 _ _ _ _ y]) simp_all
  have "\<bar>x\<bar> ^ (2 * 14) \<le> (9 / 4) ^ (2 * 14)"
    by (intro power_mono) (simp_all add: x_def)
  then have "\<bar>x\<bar> ^ (2 * 14) / fact (2 * 14) \<le> (9 / 4) ^ (2 * 14) / fact (2 * 14)"
    by (simp add: divide_right_mono)
  also have "\<dots> \<le> (30197379103 / 2 ^ 100)"
    by (simp add: fact_numeral power_divide)
  finally have r: "\<bar>x\<bar> ^ (2 * 14) / fact (2 * 14) \<le> (30197379103 / 2 ^ 100)" .
  have c: "\<bar>cos x - cos_horner 14 0 y\<bar> \<le> \<bar>x\<bar> ^ (2 * 14) / fact (2 * 14)"
    unfolding y_def by (rule cos_horner_bound)
  have "(- 5645476698982023 - 1 / 2) / 2 ^ 53 < ((- (397265105591628995777146877875 / 2 ^ 99)) -
      (30197379103 / 2 ^ 100) :: real)" and "((- (24829069099476812236071679867 / 2 ^ 95)) +
      (30197379103 / 2 ^ 100) :: real) < (- 5645476698982023 + 1 / 2) / 2 ^ 53"
    by simp_all
  with b14 r c have "(- 5645476698982023 - 1 / 2) / 2 ^ 53 < cos x \<and> cos x < (-
      5645476698982023 + 1 / 2) / 2 ^ 53"
    by linarith
  moreover have "cos ((- (316406336955959 / 2 ^ 47)) :: real) = cos x"
    unfolding x_def by (simp only: cos_minus)
  ultimately show ?thesis
    by simp
qed

lemma cos_bracket_lat_a:
  "(7781992662406968 - 1 / 2) / 2 ^ 54 < cos ((632812673911919 / 2 ^ 49) :: real) \<and> cos
      ((632812673911919 / 2 ^ 49) :: real) < (7781992662406968 + 1 / 2) / 2 ^ 54"
proof -
  define x :: real where "x = (632812673911919 / 2 ^ 49)"
  define y :: real where "y = x\<^sup>2"
  have y: "(400451880263552729730570262561 / 2 ^ 98) \<le> y \<and> y \<le>
      (400451880263552729730570262561 / 2 ^ 98)"
    by (simp add: y_def x_def power_divide)
  have b0: "0 \<le> cos_horner 0 11 y \<and> cos_horner 0 11 y \<le> 0"
    by simp
  have b1: "1 \<le> cos_horner 1 10 y \<and> cos_horner 1 10 y \<le> 1"
    by (rule cos_horner_interval [OF b0 _ _ _ _ y]) simp_all
  have b2: "(1263435317278086741183749834191 / 2 ^ 100) \<le> cos_horner 2 9 y \<and> cos_horner
      2 9 y \<le> (78964707329880421323984364637 / 2 ^ 96)"
    by (rule cos_horner_interval [OF b1 _ _ _ _ y]) simp_all
  have b3: "(631216670905818788862801421961 / 2 ^ 99) \<le> cos_horner 3 8 y \<and> cos_horner 3
      8 y \<le> (1262433341811637577725602843923 / 2 ^ 100)"
    by (rule cos_horner_interval [OF b2 _ _ _ _ y]) simp_all
  have b4: "(1261003871161812468636656671491 / 2 ^ 100) \<le> cos_horner 4 7 y \<and> cos_horner
      4 7 y \<le> (315250967790453117159164167873 / 2 ^ 98)"
    by (rule cos_horner_interval [OF b3 _ _ _ _ y]) simp_all
  have b5: "(1258895607414683749845017801415 / 2 ^ 100) \<le> cos_horner 5 6 y \<and> cos_horner
      5 6 y \<le> (157361950926835468730627225177 / 2 ^ 97)"
    by (rule cos_horner_interval [OF b4 _ _ _ _ y]) simp_all
  have b6: "(1255599504145110404198612108947 / 2 ^ 100) \<le> cos_horner 6 5 y \<and> cos_horner
      6 5 y \<le> (313899876036277601049653027237 / 2 ^ 98)"
    by (rule cos_horner_interval [OF b5 _ _ _ _ y]) simp_all
  have b7: "(312505484179555143656857107815 / 2 ^ 98) \<le> cos_horner 7 4 y \<and> cos_horner 7
      4 y \<le> (1250021936718220574627428431261 / 2 ^ 100)"
    by (rule cos_horner_interval [OF b6 _ _ _ _ y]) simp_all
  have b8: "(1239444673743925330365487428741 / 2 ^ 100) \<le> cos_horner 8 3 y \<and> cos_horner
      8 3 y \<le> (619722336871962665182743714371 / 2 ^ 99)"
    by (rule cos_horner_interval [OF b7 _ _ _ _ y]) simp_all
  have b9: "(607722526474225851346622565809 / 2 ^ 99) \<le> cos_horner 9 2 y \<and> cos_horner 9
      2 y \<le> (1215445052948451702693245131619 / 2 ^ 100)"
    by (rule cos_horner_interval [OF b8 _ _ _ _ y]) simp_all
  have b10: "(1139663898760540564591573489193 / 2 ^ 100) \<le> cos_horner 10 1 y \<and>
      cos_horner 10 1 y \<le> (569831949380270282295786744597 / 2 ^ 99)"
    by (rule cos_horner_interval [OF b9 _ _ _ _ y]) simp_all
  have b11: "(547609050853374304252414047897 / 2 ^ 100) \<le> cos_horner 11 0 y \<and> cos_horner
      11 0 y \<le> (273804525426687152126207023949 / 2 ^ 99)"
    by (rule cos_horner_interval [OF b10 _ _ _ _ y]) simp_all
  have "\<bar>x\<bar> ^ (2 * 11) \<le> (5 / 4) ^ (2 * 11)"
    by (intro power_mono) (simp_all add: x_def)
  then have "\<bar>x\<bar> ^ (2 * 11) / fact (2 * 11) \<le> (5 / 4) ^ (2 * 11) / fact (2 * 11)"
    by (simp add: divide_right_mono)
  also have "\<dots> \<le> (19105714035 / 2 ^ 97)"
    by (simp add: fact_numeral power_divide)
  finally have r: "\<bar>x\<bar> ^ (2 * 11) / fact (2 * 11) \<le> (19105714035 / 2 ^ 97)" .
  have c: "\<bar>cos x - cos_horner 11 0 y\<bar> \<le> \<bar>x\<bar> ^ (2 * 11) / fact (2 * 11)"
    unfolding y_def by (rule cos_horner_bound)
  have "(7781992662406968 - 1 / 2) / 2 ^ 54 < ((547609050853374304252414047897 / 2 ^ 100) -
      (19105714035 / 2 ^ 97) :: real)" and "((273804525426687152126207023949 / 2 ^ 99) +
      (19105714035 / 2 ^ 97) :: real) < (7781992662406968 + 1 / 2) / 2 ^ 54"
    by simp_all
  with b11 r c have "(7781992662406968 - 1 / 2) / 2 ^ 54 < cos x \<and> cos x < (7781992662406968
      + 1 / 2) / 2 ^ 54"
    by linarith
  then show ?thesis
    unfolding x_def .
qed

lemma cos_bracket_lat_b:
  "(7781992662407037 - 1 / 2) / 2 ^ 54 < cos ((- (5062501391295333 / 2 ^ 52)) :: real) \<and> cos
      ((- (5062501391295333 / 2 ^ 52)) :: real) < (7781992662407037 + 1 / 2) / 2 ^ 54"
proof -
  define x :: real where "x = (5062501391295333 / 2 ^ 52)"
  define y :: real where "y = x\<^sup>2"
  have y: "(1601807521054198895481476723805 / 2 ^ 100) \<le> y \<and> y \<le>
      (800903760527099447740738361903 / 2 ^ 99)"
    by (simp add: y_def x_def power_divide)
  have b0: "0 \<le> cos_horner 0 11 y \<and> cos_horner 0 11 y \<le> 0"
    by simp
  have b1: "1 \<le> cos_horner 1 10 y \<and> cos_horner 1 10 y \<le> 1"
    by (rule cos_horner_interval [OF b0 _ _ _ _ y]) simp_all
  have b2: "(1263435317278086772824383529787 / 2 ^ 100) \<le> cos_horner 2 9 y \<and> cos_horner
      2 9 y \<le> (315858829319521693206095882447 / 2 ^ 98)"
    by (rule cos_horner_interval [OF b1 _ _ _ _ y]) simp_all
  have b3: "(1262433341811637616756577955223 / 2 ^ 100) \<le> cos_horner 3 8 y \<and> cos_horner
      3 8 y \<le> (157804167726454702094572244403 / 2 ^ 97)"
    by (rule cos_horner_interval [OF b2 _ _ _ _ y]) simp_all
  have b4: "(630501935580906259161320762167 / 2 ^ 99) \<le> cos_horner 4 7 y \<and> cos_horner 4
      7 y \<le> (1261003871161812518322641524335 / 2 ^ 100)"
    by (rule cos_horner_interval [OF b3 _ _ _ _ y]) simp_all
  have b5: "(1258895607414683815216525403863 / 2 ^ 100) \<le> cos_horner 5 6 y \<and> cos_horner
      5 6 y \<le> (157361950926835476902065675483 / 2 ^ 97)"
    by (rule cos_horner_interval [OF b4 _ _ _ _ y]) simp_all
  have b6: "(1255599504145110494030412091089 / 2 ^ 100) \<le> cos_horner 6 5 y \<and> cos_horner
      6 5 y \<le> (627799752072555247015206045545 / 2 ^ 99)"
    by (rule cos_horner_interval [OF b5 _ _ _ _ y]) simp_all
  have b7: "(625010968359110352844972752297 / 2 ^ 99) \<le> cos_horner 7 4 y \<and> cos_horner 7
      4 y \<le> (1250021936718220705689945504595 / 2 ^ 100)"
    by (rule cos_horner_interval [OF b6 _ _ _ _ y]) simp_all
  have b8: "(1239444673743925539126648655385 / 2 ^ 100) \<le> cos_horner 8 3 y \<and> cos_horner
      8 3 y \<le> (619722336871962769563324327693 / 2 ^ 99)"
    by (rule cos_horner_interval [OF b7 _ _ _ _ y]) simp_all
  have b9: "(1215445052948452085763955210513 / 2 ^ 100) \<le> cos_horner 9 2 y \<and> cos_horner
      9 2 y \<le> (607722526474226042881977605257 / 2 ^ 99)"
    by (rule cos_horner_interval [OF b8 _ _ _ _ y]) simp_all
  have b10: "(1139663898760541484944159736575 / 2 ^ 100) \<le> cos_horner 10 1 y \<and>
      cos_horner 10 1 y \<le> (1139663898760541484944159736577 / 2 ^ 100)"
    by (rule cos_horner_interval [OF b9 _ _ _ _ y]) simp_all
  have b11: "(547609050853379127526953065537 / 2 ^ 100) \<le> cos_horner 11 0 y \<and> cos_horner
      11 0 y \<le> (136902262713344781881738266385 / 2 ^ 98)"
    by (rule cos_horner_interval [OF b10 _ _ _ _ y]) simp_all
  have "\<bar>x\<bar> ^ (2 * 11) \<le> (5 / 4) ^ (2 * 11)"
    by (intro power_mono) (simp_all add: x_def)
  then have "\<bar>x\<bar> ^ (2 * 11) / fact (2 * 11) \<le> (5 / 4) ^ (2 * 11) / fact (2 * 11)"
    by (simp add: divide_right_mono)
  also have "\<dots> \<le> (19105714035 / 2 ^ 97)"
    by (simp add: fact_numeral power_divide)
  finally have r: "\<bar>x\<bar> ^ (2 * 11) / fact (2 * 11) \<le> (19105714035 / 2 ^ 97)" .
  have c: "\<bar>cos x - cos_horner 11 0 y\<bar> \<le> \<bar>x\<bar> ^ (2 * 11) / fact (2 * 11)"
    unfolding y_def by (rule cos_horner_bound)
  have "(7781992662407037 - 1 / 2) / 2 ^ 54 < ((547609050853379127526953065537 / 2 ^ 100) -
      (19105714035 / 2 ^ 97) :: real)" and "((136902262713344781881738266385 / 2 ^ 98) +
      (19105714035 / 2 ^ 97) :: real) < (7781992662407037 + 1 / 2) / 2 ^ 54"
    by simp_all
  with b11 r c have "(7781992662407037 - 1 / 2) / 2 ^ 54 < cos x \<and> cos x < (7781992662407037
      + 1 / 2) / 2 ^ 54"
    by linarith
  moreover have "cos ((- (5062501391295333 / 2 ^ 52)) :: real) = cos x"
    unfolding x_def by (simp only: cos_minus)
  ultimately show ?thesis
    by simp
qed

lemma cos_quarter_turn:
  "- (1 / 2 ^ 28) < cos ((884279719003555 / 2 ^ 49) :: real) \<and> cos ((884279719003555 / 2 ^
      49) :: real) < 1 / 2 ^ 28"
proof -
  define x :: real where "x = (884279719003555 / 2 ^ 49)"
  define y :: real where "y = x\<^sup>2"
  have y: "(781950621441006189802102638025 / 2 ^ 98) \<le> y \<and> y \<le>
      (781950621441006189802102638025 / 2 ^ 98)"
    by (simp add: y_def x_def power_divide)
  have b0: "0 \<le> cos_horner 0 10 y \<and> cos_horner 0 10 y \<le> 0"
    by simp
  have b1: "1 \<le> cos_horner 1 9 y \<and> cos_horner 1 9 y \<le> 1"
    by (rule cos_horner_interval [OF b0 _ _ _ _ y]) simp_all
  have b2: "(1257429023477366575486218203571 / 2 ^ 100) \<le> cos_horner 2 8 y \<and> cos_horner
      2 8 y \<le> (314357255869341643871554550893 / 2 ^ 98)"
    by (rule cos_horner_interval [OF b1 _ _ _ _ y]) simp_all
  have b3: "(627361588122359643128259064473 / 2 ^ 99) \<le> cos_horner 3 7 y \<and> cos_horner 3
      7 y \<le> (1254723176244719286256518128947 / 2 ^ 100)"
    by (rule cos_horner_interval [OF b2 _ _ _ _ y]) simp_all
  have b4: "(1250640131296342451654359685137 / 2 ^ 100) \<le> cos_horner 4 6 y \<and> cos_horner
      4 6 y \<le> (625320065648171225827179842569 / 2 ^ 99)"
    by (rule cos_horner_interval [OF b3 _ _ _ _ y]) simp_all
  have b5: "(622136546947427812672106604453 / 2 ^ 99) \<le> cos_horner 5 5 y \<and> cos_horner 5
      5 y \<le> (1244273093894855625344213208907 / 2 ^ 100)"
    by (rule cos_horner_interval [OF b4 _ _ _ _ y]) simp_all
  have b6: "(1233538146884724571277671142109 / 2 ^ 100) \<le> cos_horner 6 4 y \<and> cos_horner
      6 4 y \<le> (616769073442362285638835571055 / 2 ^ 99)"
    by (rule cos_horner_interval [OF b5 _ _ _ _ y]) simp_all
  have b7: "(1213300004141599542638347202377 / 2 ^ 100) \<le> cos_horner 7 3 y \<and> cos_horner
      7 3 y \<le> (606650002070799771319173601189 / 2 ^ 99)"
    by (rule cos_horner_interval [OF b6 _ _ _ _ y]) simp_all
  have b8: "(145982584340281105445203390275 / 2 ^ 97) \<le> cos_horner 8 2 y \<and> cos_horner 8
      2 y \<le> (1167860674722248843561627122201 / 2 ^ 100)"
    by (rule cos_horner_interval [OF b7 _ _ _ _ y]) simp_all
  have b9: "(1027518874080356606553254231473 / 2 ^ 100) \<le> cos_horner 9 1 y \<and> cos_horner
      9 1 y \<le> (513759437040178303276627115737 / 2 ^ 99)"
    by (rule cos_horner_interval [OF b8 _ _ _ _ y]) simp_all
  have b10: "(- (4257060601446875 / 2 ^ 100)) \<le> cos_horner 10 0 y \<and> cos_horner 10 0 y
      \<le> (- (4257060601446873 / 2 ^ 100))"
    by (rule cos_horner_interval [OF b9 _ _ _ _ y]) simp_all
  have "\<bar>x\<bar> ^ (2 * 10) \<le> (8 / 5) ^ (2 * 10)"
    by (intro power_mono) (simp_all add: x_def)
  then have "\<bar>x\<bar> ^ (2 * 10) / fact (2 * 10) \<le> (8 / 5) ^ (2 * 10) / fact (2 * 10)"
    by (simp add: divide_right_mono)
  also have "\<dots> \<le> (6299043429268371 / 2 ^ 100)"
    by (simp add: fact_numeral power_divide)
  finally have r: "\<bar>x\<bar> ^ (2 * 10) / fact (2 * 10) \<le> (6299043429268371 / 2 ^ 100)" .
  have c: "\<bar>cos x - cos_horner 10 0 y\<bar> \<le> \<bar>x\<bar> ^ (2 * 10) / fact (2 * 10)"
    unfolding y_def by (rule cos_horner_bound)
  have "- (1 / 2 ^ 28) < ((- (4257060601446875 / 2 ^ 100)) - (6299043429268371 / 2 ^ 100) ::
      real)" and "((- (4257060601446873 / 2 ^ 100)) + (6299043429268371 / 2 ^ 100) :: real) < 1 /
      2 ^ 28"
    by simp_all
  with b10 r c have "- (1 / 2 ^ 28) < cos x \<and> cos x < 1 / 2 ^ 28"
    by linarith
  then show ?thesis
    unfolding x_def .
qed

lemma cos_half_turn:
  "- 1 \<le> cos ((884279719003555 / 2 ^ 48) :: real) \<and> cos ((884279719003555 / 2 ^ 48) ::
      real) < - 1 + 1 / 2 ^ 54"
proof -
  define z :: real where "z = (884279719003555 / 2 ^ 49)"
  have z: "- (1 / 2 ^ 28) < cos z \<and> cos z < 1 / 2 ^ 28"
    unfolding z_def by (rule cos_quarter_turn)
  then have "\<bar>cos z\<bar> < 1 / 2 ^ 28"
    by linarith
  then have "\<bar>cos z\<bar> ^ 2 < (1 / 2 ^ 28) ^ 2"
    by (intro power_strict_mono) simp_all
  then have sq: "(cos z)\<^sup>2 < 1 / 2 ^ 56"
    by (simp add: power_divide)
  have "cos (2 * z) = 2 * (cos z)\<^sup>2 - 1"
    by (rule cos_double_cos)
  with sq have "cos (2 * z) < - 1 + 1 / 2 ^ 54"
    by simp
  moreover have "2 * z = (884279719003555 / 2 ^ 48)"
    by (simp add: z_def)
  ultimately show ?thesis
    by simp
qed

lemma calc_a_double_antipodal:
  "calc_a_double \<lparr>latitude = 2061 / 32, longitude = 0\<rparr>
     \<lparr>latitude = - (2061 / 32) + 17 / 2 ^ 46, longitude = 180\<rparr> = 1 + 1 / 2 ^ 51"
proof -
  note p_double_value [simp]
  have s1: "fl (- (2061 / 32) + 17 / 2 ^ 46 - 2061 / 32) = (- (566523366211583 / 2 ^ 42))"
    using fl_tie [of "- (2061 / 32) + 17 / 2 ^ 46 - 2061 / 32" 45 "-4532186929692664"] by simp
  have s2: "fl ((- (566523366211583 / 2 ^ 42)) * (5030569068109113 / 2 ^ 58)) = (-
      (316406336955959 / 2 ^ 47))"
    using fl_nearest [of "(- (566523366211583 / 2 ^ 42)) * (5030569068109113 / 2 ^ 58)" 51
        "-5062501391295344"] by simp
  have s3: "fl (cos (- (316406336955959 / 2 ^ 47))) = (- (5645476698982023 / 2 ^ 53))"
    using fl_between [where k = "-5645476698982023" and x = "cos (- (316406336955959 / 2 ^ 47))"
        and n = 53] cos_bracket_dphi by simp
  have s4: "fl ((- (5645476698982023 / 2 ^ 53)) / 2) = (- (5645476698982023 / 2 ^ 54))"
    using fl_exact [of "-5645476698982023" 54] by simp
  have s5: "fl (1 / 2 - (- (5645476698982023 / 2 ^ 54))) = (1831584494215377 / 2 ^ 51)"
    using fl_tie [of "1 / 2 - (- (5645476698982023 / 2 ^ 54))" 53 "7326337976861507"] by simp
  have s6: "fl (2061 / 32 * (5030569068109113 / 2 ^ 58)) = (632812673911919 / 2 ^ 49)"
    using fl_nearest [of "2061 / 32 * (5030569068109113 / 2 ^ 58)" 52 "5062501391295352"] by simp
  have s7: "fl ((- (2061 / 32) + 17 / 2 ^ 46) * (5030569068109113 / 2 ^ 58)) = (-
      (5062501391295333 / 2 ^ 52))"
    using fl_nearest [of "(- (2061 / 32) + 17 / 2 ^ 46) * (5030569068109113 / 2 ^ 58)" 52
        "-5062501391295333"] by simp
  have s8: "fl (cos (632812673911919 / 2 ^ 49)) = (972749082800871 / 2 ^ 51)"
    using fl_between [where k = "7781992662406968" and x = "cos (632812673911919 / 2 ^ 49)" and n
        = 54] cos_bracket_lat_a by simp
  have s9: "fl (cos (- (5062501391295333 / 2 ^ 52))) = (7781992662407037 / 2 ^ 54)"
    using fl_between [where k = "7781992662407037" and x = "cos (- (5062501391295333 / 2 ^ 52))"
        and n = 54] cos_bracket_lat_b by simp
  have s10: "fl ((972749082800871 / 2 ^ 51) * (7781992662407037 / 2 ^ 54)) = (1680861277879487 /
      2 ^ 53)"
    using fl_nearest [of "(972749082800871 / 2 ^ 51) * (7781992662407037 / 2 ^ 54)" 55
        "6723445111517948"] by simp
  have s11: "fl (180 - 0) = 180"
    using fl_exact [of "6333186975989760" 45] by simp
  have s12: "fl (180 * (5030569068109113 / 2 ^ 58)) = (884279719003555 / 2 ^ 48)"
    using fl_nearest [of "180 * (5030569068109113 / 2 ^ 58)" 51 "7074237752028440"] by simp
  have s13: "fl (cos (884279719003555 / 2 ^ 48)) = - 1"
    using cos_half_turn by (intro fl_near_minus_one) simp_all
  have s14: "fl (1 - (- 1)) = 2"
    using fl_exact [of "4503599627370496" 51] by simp
  have s15: "fl ((1680861277879487 / 2 ^ 53) * 2) = (1680861277879487 / 2 ^ 52)"
    using fl_exact [of "6723445111517948" 54] by simp
  have s16: "fl ((1680861277879487 / 2 ^ 52) / 2) = (1680861277879487 / 2 ^ 53)"
    using fl_exact [of "6723445111517948" 55] by simp
  have s17: "fl ((1831584494215377 / 2 ^ 51) + (1680861277879487 / 2 ^ 53)) = (2251799813685249 /
      2 ^ 51)"
    using fl_tie [of "(1831584494215377 / 2 ^ 51) + (1680861277879487 / 2 ^ 53)" 52
        "4503599627370497"] by simp
  have "calc_a_double \<lparr>latitude = 2061 / 32, longitude = 0\<rparr>
     \<lparr>latitude = - (2061 / 32) + 17 / 2 ^ 46, longitude = 180\<rparr> = (2251799813685249
         / 2 ^ 51)"
    by (rule calc_a_double_trace [where dphi = "(- (566523366211583 / 2 ^ 42))" and xphi = "(-
        (316406336955959 / 2 ^ 47))" and cphi = "(- (5645476698982023 / 2 ^ 53))" and h = "(-
        (5645476698982023 / 2 ^ 54))" and u = "(1831584494215377 / 2 ^ 51)" and ta =
        "(632812673911919 / 2 ^ 49)" and tb = "(- (5062501391295333 / 2 ^ 52))" and ca =
        "(972749082800871 / 2 ^ 51)" and cb = "(7781992662407037 / 2 ^ 54)" and cc =
        "(1680861277879487 / 2 ^ 53)" and dlam = "180" and w = "(884279719003555 / 2 ^ 48)" and
        cw = "(- 1)" and om = "2" and pr = "(1680861277879487 / 2 ^ 52)" and v =
        "(1680861277879487 / 2 ^ 53)" and a = "(2251799813685249 / 2 ^ 51)"])
      (use s1 s2 s3 s4 s5 s6 s7 s8 s9 s10 s11 s12 s13 s14 s15 s16 s17 in simp_all)
  then show ?thesis
    by simp
qed

lemma fl_sqrt_overshoot: "fl (sqrt (1 + 1 / 2 ^ 51)) = 1 + 1 / 2 ^ 52"
proof -
  have "((1 + 1 / 2 ^ 53)::real)\<^sup>2 < 1 + 1 / 2 ^ 51"
    by (simp add: power2_eq_square)
  then have lo: "1 + 1 / 2 ^ 53 < sqrt (1 + 1 / 2 ^ 51)"
    by (rule real_less_rsqrt)
  have "(1 + 1 / 2 ^ 51 :: real) < (1 + 3 / 2 ^ 53)\<^sup>2"
    by (simp add: power2_eq_square)
  then have hi: "sqrt (1 + 1 / 2 ^ 51) < 1 + 3 / 2 ^ 53"
    by (intro real_less_lsqrt) simp_all
  show ?thesis
    using fl_between [where k = "2 ^ 52 + 1" and x = "sqrt (1 + 1 / 2 ^ 51)" and n = 52] lo hi by
        simp
qed

lemma Math_sqrt_double_overshoot:
  "Math_sqrt_double (1 + 1 / 2 ^ 51) = Num (1 + 1 / 2 ^ 52)"
  unfolding Math_sqrt_double_def using fl_sqrt_overshoot by simp

lemma Math_asin_double_overshoot: "Math_asin_double (Num (1 + 1 / 2 ^ 52)) = NaN"
  by (simp add: Math_asin_double_def)

section \<open>Equal points, the argument of the arcsine, and the haversine distance\<close>

text \<open>
  C3 (amended). For every coordinate \<open>a\<close> with finite latitude and longitude,
  \<open>calculateDistance(a, a)\<close> returns the number \<open>0\<close> and not \<open>NaN\<close>, on doubles and on
  exact reals: both differences are exactly \<open>0\<close>, the cosine of \<open>0\<close> is exactly \<open>1\<close>, and
  the value under the square root is exactly \<open>0\<close>. No clamp takes part in it, and the
  source has none.
\<close>

theorem calculateDistance_same_point:
  "calculateDistance_double (Some a) (Some a) = Inr (Num 0)
   \<and> calc_a_double a a = 0
   \<and> calculateDistance (Some a) (Some a) = Inr (Num 0)
   \<and> calc_a a a = 0"
  by (simp add: calculateDistance_double_same calc_a_double_same calculateDistance_def
      calc_a_same Math_sqrt_def Math_asin_def times_number_def)

text \<open>
  C3, the clamp. The argument of \<open>Math.asin\<close> is not clamped to \<open>[-1, 1]\<close>: for the
  nearly antipodal points \<open>(64.40625, 0)\<close> and \<open>(- 64.40625 + 17 / 2 ^ 46, 180)\<close>, both
  pairs of doubles, the value \<open>a\<close> comes out as \<open>1 + 1 / 2 ^ 51\<close>, its square root as
  \<open>1 + 1 / 2 ^ 52\<close>, and \<open>Math.asin\<close> of that is \<open>NaN\<close>, which \<open>calculateDistance\<close>
  returns.
\<close>

theorem asin_argument_not_clamped:
  "Math_sqrt_double
     (calc_a_double \<lparr>latitude = 2061 / 32, longitude = 0\<rparr>
        \<lparr>latitude = - (2061 / 32) + 17 / 2 ^ 46, longitude = 180\<rparr>)
     = Num (1 + 1 / 2 ^ 52)
   \<and> calculateDistance_double (Some \<lparr>latitude = 2061 / 32, longitude = 0\<rparr>)
       (Some \<lparr>latitude = - (2061 / 32) + 17 / 2 ^ 46, longitude = 180\<rparr>) = Inr NaN"
proof
  show "Math_sqrt_double
     (calc_a_double \<lparr>latitude = 2061 / 32, longitude = 0\<rparr>
        \<lparr>latitude = - (2061 / 32) + 17 / 2 ^ 46, longitude = 180\<rparr>)
     = Num (1 + 1 / 2 ^ 52)"
    by (simp only: calc_a_double_antipodal Math_sqrt_double_overshoot)
  show "calculateDistance_double (Some \<lparr>latitude = 2061 / 32, longitude = 0\<rparr>)
       (Some \<lparr>latitude = - (2061 / 32) + 17 / 2 ^ 46, longitude = 180\<rparr>) = Inr NaN"
    by (simp only: calculateDistance_double_def option.case calc_a_double_antipodal
        Math_sqrt_double_overshoot Math_asin_double_overshoot times_double_def number.case)
qed

text \<open>
  C2 (amended). On exact reals \<open>calculateDistance(a, b)\<close> is the haversine distance on
  the sphere of radius 6371 km, for every pair of coordinates. For the reference pair
  \<open>(0, 0)\<close>, \<open>(0, 1)\<close> that distance is \<open>6371 * p\<close>, within 0.5 of 111.19, and the value
  computed on doubles is within 0.5 of 111.19 as well. No bound on the relative error of
  the doubles is claimed for every pair: see the next theorem.
\<close>

theorem calculateDistance_haversine:
  "calculateDistance (Some x) (Some y) = Inr (Num (haversine_reference 6371 x y))
   \<and> haversine_reference 6371 \<lparr>latitude = 0, longitude = 0\<rparr> \<lparr>latitude = 0, longitude = 1\<rparr>
       = 6371 * p
   \<and> \<bar>6371 * p - 111.19\<bar> \<le> 0.5
   \<and> (\<exists>v. calculateDistance_double (Some \<lparr>latitude = 0, longitude = 0\<rparr>)
              (Some \<lparr>latitude = 0, longitude = 1\<rparr>) = Inr (Num v)
          \<and> \<bar>v - 111.19\<bar> \<le> 0.5)"
proof (intro conjI)
  show "calculateDistance (Some x) (Some y) = Inr (Num (haversine_reference 6371 x y))"
    by (simp only: calculateDistance_Some distanceKm_haversine)
  show "haversine_reference 6371 \<lparr>latitude = 0, longitude = 0\<rparr> \<lparr>latitude = 0, longitude = 1\<rparr>
       = 6371 * p"
    by (simp only: distanceKm_haversine [symmetric] distanceKm_one_degree(1))
  show "\<bar>6371 * p - 111.19\<bar> \<le> 0.5"
    by (rule distanceKm_one_degree(2))
  show "\<exists>v. calculateDistance_double (Some \<lparr>latitude = 0, longitude = 0\<rparr>)
              (Some \<lparr>latitude = 0, longitude = 1\<rparr>) = Inr (Num v)
          \<and> \<bar>v - 111.19\<bar> \<le> 0.5"
    by (rule one_degree_double)
qed

text \<open>
  C2, the rounding bound. The points \<open>(0, 0)\<close> and \<open>(0, 1 / 2 ^ 21)\<close> are about 5 cm
  apart: their haversine distance is \<open>6371 * p / 2 ^ 21\<close> km. On doubles the cosine of
  the longitude difference rounds to \<open>1\<close>, the value under the square root is \<open>0\<close>, and
  \<open>calculateDistance\<close> returns \<open>0\<close>: the relative error is \<open>1\<close>, not below \<open>1e-9\<close>.
\<close>

theorem nearby_points_distance_zero:
  "calculateDistance_double (Some \<lparr>latitude = 0, longitude = 0\<rparr>)
     (Some \<lparr>latitude = 0, longitude = 1 / 2 ^ 21\<rparr>) = Inr (Num 0)
   \<and> haversine_reference 6371 \<lparr>latitude = 0, longitude = 0\<rparr>
       \<lparr>latitude = 0, longitude = 1 / 2 ^ 21\<rparr> = 6371 * p / 2 ^ 21
   \<and> relative_error 0
       (haversine_reference 6371 \<lparr>latitude = 0, longitude = 0\<rparr>
          \<lparr>latitude = 0, longitude = 1 / 2 ^ 21\<rparr>) = 1"
proof -
  have 0: "equator 0 = \<lparr>latitude = 0, longitude = 0\<rparr>"
    by (simp add: equator_def)
  have 1: "equator (6371 * p / 2 ^ 21) = \<lparr>latitude = 0, longitude = 1 / 2 ^ 21\<rparr>"
    using p_pos by (simp add: equator_def)
  have "\<bar>6371 * p / 2 ^ 21 - 0\<bar> \<le> 12742"
    by (simp add: p_def)
  from distanceKm_equator [OF this]
  have "distanceKm (equator 0) (equator (6371 * p / 2 ^ 21)) = 6371 * p / 2 ^ 21"
    using p_pos by simp
  then have h: "haversine_reference 6371 \<lparr>latitude = 0, longitude = 0\<rparr>
       \<lparr>latitude = 0, longitude = 1 / 2 ^ 21\<rparr> = 6371 * p / 2 ^ 21"
    by (simp only: 0 1 distanceKm_haversine)
  have "relative_error 0 (6371 * p / 2 ^ 21) = 1"
    using p_pos by (simp add: relative_error_def)
  with h show ?thesis
    by (simp only: calculateDistance_double_tiny)
qed

section \<open>The screen with tracking: alerts\<close>

lemma alert_count_simps [simp]:
  "alert_count [] = 0"
  "alert_count (fx @ gx) = alert_count fx + alert_count gx"
  "alert_count (triggerProximityAlert d) = 1"
  "alert_count [AlertDialog t m] = 0"
  "alert_count [GeocodeAsync q] = 0"
  by (simp_all add: alert_count_def triggerProximityAlert_def)

lemma distanceEffect_present:
  assumes "location s = Some c" and "destination s = Some d"
  shows "distanceEffect s =
     (if distanceKm c d \<le> 2 \<and> \<not> hasAlerted s
      then Inr (s\<lparr>distance := Some (Num (distanceKm c d)), hasAlerted := True\<rparr>,
                triggerProximityAlert (Num (distanceKm c d)))
      else if 2.5 < distanceKm c d
      then Inr (s\<lparr>distance := Some (Num (distanceKm c d)), hasAlerted := False\<rparr>, [])
      else Inr (s\<lparr>distance := Some (Num (distanceKm c d))\<rparr>, []))"
  using assms
  by (simp add: distanceEffect_def calculateDistance_Some le_number_def gt_number_def)

lemma distanceEffect_absent:
  assumes "location s = None \<or> destination s = None"
  shows "distanceEffect s = Inr (s, [])"
  using assms by (auto simp add: distanceEffect_def)

lemma step_WatchPosition:
  assumes "destination s = Some d"
  shows "step (WatchPosition c) s =
     (if distanceKm c d \<le> 2 \<and> \<not> hasAlerted s
      then Inr (s\<lparr>location := Some c, distance := Some (Num (distanceKm c d)),
                  hasAlerted := True\<rparr>,
                triggerProximityAlert (Num (distanceKm c d)))
      else if 2.5 < distanceKm c d
      then Inr (s\<lparr>location := Some c, distance := Some (Num (distanceKm c d)),
                  hasAlerted := False\<rparr>, [])
      else Inr (s\<lparr>location := Some c, distance := Some (Num (distanceKm c d))\<rparr>, []))"
  using assms
  by (simp add: step_def distanceEffect_present [where c = c and d = d])

lemma step_InitialPosition:
  assumes "destination s = Some d"
  shows "step (InitialPosition c) s =
     (if distanceKm c d \<le> 2 \<and> \<not> hasAlerted s
      then Inr (s\<lparr>location := Some c, isLoading := False,
                  distance := Some (Num (distanceKm c d)), hasAlerted := True\<rparr>,
                triggerProximityAlert (Num (distanceKm c d)))
      else if 2.5 < distanceKm c d
      then Inr (s\<lparr>location := Some c, isLoading := False,
                  distance := Some (Num (distanceKm c d)), hasAlerted := False\<rparr>, [])
      else Inr (s\<lparr>location := Some c, isLoading := False,
                  distance := Some (Num (distanceKm c d))\<rparr>, []))"
  using assms
  by (simp add: step_def distanceEffect_present [where c = c and d = d])

lemma distanceEffect_with_exact: "distanceEffect_with calculateDistance = distanceEffect"
  by (rule ext) (simp add: distanceEffect_with_def distanceEffect_def)

lemma step_with_exact: "step_with calculateDistance = step"
  by (intro ext) (simp add: step_with_def step_def distanceEffect_with_exact split: prod.splits)

lemma run_with_exact: "run_with calculateDistance es s = run es s"
  by (induction es arbitrary: s) (simp_all add: step_with_exact split: sum.splits prod.splits)

lemma step_with_WatchPosition:
  assumes "destination s = Some d" and "calc (Some c) (Some d) = Inr v"
  shows "step_with calc (WatchPosition c) s =
     (if le_number v 2 \<and> \<not> hasAlerted s
      then Inr (s\<lparr>location := Some c, distance := Some v, hasAlerted := True\<rparr>,
                triggerProximityAlert v)
      else if gt_number v 2.5
      then Inr (s\<lparr>location := Some c, distance := Some v, hasAlerted := False\<rparr>, [])
      else Inr (s\<lparr>location := Some c, distance := Some v\<rparr>, []))"
  using assms by (simp add: step_with_def distanceEffect_with_def)

text \<open>
  C4. The alert flag is set and \<open>d\<close> is the destination. A position sample for which
  \<open>calculateDistance\<close> returns a number above 2.5 clears the flag, stores the number and
  emits nothing. A following sample for which it returns a number of at most 2 vibrates
  with the pattern 500, 200, 500, 200, 500, shows the proximity dialog with that number,
  and sets the flag again. The hypotheses are on the numbers the distance function
  returns, whatever function \<open>calc\<close> it is: the exact one or the one on doubles.
\<close>

theorem rearm_after_leaving:
  assumes "destination s = Some d" and "hasAlerted s"
    and "calc (Some far) (Some d) = Inr dfar" and "gt_number dfar 2.5"
    and "calc (Some near) (Some d) = Inr dnear" and "le_number dnear 2"
  shows "step_with calc (WatchPosition far) s
           = Inr (s\<lparr>location := Some far, distance := Some dfar, hasAlerted := False\<rparr>, [])
         \<and> step_with calc (WatchPosition near)
               (s\<lparr>location := Some far, distance := Some dfar, hasAlerted := False\<rparr>)
           = Inr (s\<lparr>location := Some near, distance := Some dnear, hasAlerted := True\<rparr>,
                  [Vibrate [500, 200, 500, 200, 500], ProximityDialog dnear])"
proof
  show "step_with calc (WatchPosition far) s
      = Inr (s\<lparr>location := Some far, distance := Some dfar, hasAlerted := False\<rparr>, [])"
    using assms by (simp add: step_with_WatchPosition [where d = d and v = dfar])
  show "step_with calc (WatchPosition near)
        (s\<lparr>location := Some far, distance := Some dfar, hasAlerted := False\<rparr>)
      = Inr (s\<lparr>location := Some near, distance := Some dnear, hasAlerted := True\<rparr>,
             [Vibrate [500, 200, 500, 200, 500], ProximityDialog dnear])"
    using assms
    by (simp add: step_with_WatchPosition [where d = d and v = dnear]
        triggerProximityAlert_def)
qed

text \<open>
  The first fix is 1.5 km from the point the user then taps: the alert fires and the flag
  is set. From that state a sample 3 km away rearms and a sample 1 km away alerts again.
\<close>

theorem rearm_after_leaving_witness:
  "run [InitialPosition (equator (3 / 2)), MapPress (equator 0)] initial_screen
     = Inr (initial_screen\<lparr>location := Some (equator (3 / 2)),
              destination := Some (equator 0), distance := Some (Num (3 / 2)),
              hasAlerted := True\<rparr>,
            [Vibrate [500, 200, 500, 200, 500], ProximityDialog (Num (3 / 2))])
   \<and> step (WatchPosition (equator 3))
       (initial_screen\<lparr>location := Some (equator (3 / 2)),
          destination := Some (equator 0), distance := Some (Num (3 / 2)),
          hasAlerted := True\<rparr>)
     = Inr (initial_screen\<lparr>location := Some (equator 3),
              destination := Some (equator 0), distance := Some (Num 3),
              hasAlerted := False\<rparr>, [])
   \<and> step (WatchPosition (equator 1))
       (initial_screen\<lparr>location := Some (equator 3),
          destination := Some (equator 0), distance := Some (Num 3),
          hasAlerted := False\<rparr>)
     = Inr (initial_screen\<lparr>location := Some (equator 1),
              destination := Some (equator 0), distance := Some (Num 1),
              hasAlerted := True\<rparr>,
            [Vibrate [500, 200, 500, 200, 500], ProximityDialog (Num 1)])"
proof -
  let ?s0 = "initial_screen\<lparr>location := Some (equator (3 / 2)),
      destination := Some (equator 0), distance := Some (Num (3 / 2)), hasAlerted := True\<rparr>"
  have first: "distanceKm (equator (3 / 2)) (equator 0) = 3 / 2"
    using distanceKm_equator [of 0 "3 / 2"] by simp
  have far: "calculateDistance (Some (equator 3)) (Some (equator 0)) = Inr (Num 3)"
    using distanceKm_equator [of 0 3] by (simp add: calculateDistance_Some)
  have near: "calculateDistance (Some (equator 1)) (Some (equator 0)) = Inr (Num 1)"
    using distanceKm_equator [of 0 1] by (simp add: calculateDistance_Some)
  have reach: "run [InitialPosition (equator (3 / 2)), MapPress (equator 0)] initial_screen
      = Inr (?s0, [Vibrate [500, 200, 500, 200, 500], ProximityDialog (Num (3 / 2))])"
    by (simp add: step_def distanceEffect_def calculateDistance_Some first le_number_def
        handleMapPress_def triggerProximityAlert_def initial_screen_def)
  have "destination ?s0 = Some (equator 0)" and "hasAlerted ?s0"
    and "gt_number (Num 3) 2.5" and "le_number (Num 1) 2"
    by (simp_all add: gt_number_def le_number_def)
  with far near reach show ?thesis
    using rearm_after_leaving
      [where s = "?s0" and d = "equator 0" and calc = calculateDistance
        and far = "equator 3" and dfar = "Num 3" and near = "equator 1" and dnear = "Num 1"]
    by (simp add: step_with_exact initial_screen_def)
qed

text \<open>
  C10. \<open>clearDestination\<close> leaves, after one render, no destination, no displayed
  distance, tracking off, the alert flag cleared and an empty search text, and asks for
  no side effect; a position sample after it asks for none either.
\<close>

theorem clearDestination_resets:
  "step ClearPressed s = Inr (clearDestination s, [])
   \<and> destination (clearDestination s) = None
   \<and> distance (clearDestination s) = None
   \<and> isTracking (clearDestination s) = False
   \<and> hasAlerted (clearDestination s) = False
   \<and> searchText (clearDestination s) = []
   \<and> step (WatchPosition c) (clearDestination s)
       = Inr ((clearDestination s)\<lparr>location := Some c\<rparr>, [])"
  by (simp add: step_def clearDestination_def distanceEffect_def)

subsection \<open>One alert per approach\<close>

lemma step_stays_in_approach:
  assumes "destination s = Some d" and "stays_in_approach d e"
  shows "\<exists>s1 fx1. step e s = Inr (s1, fx1) \<and> destination s1 = Some d
      \<and> alert_count fx1 \<le> 1
      \<and> (hasAlerted s \<longrightarrow> alert_count fx1 = 0 \<and> hasAlerted s1)
      \<and> (alert_count fx1 = 1 \<longrightarrow> hasAlerted s1)"
proof (cases e)
  case (InitialPosition c)
  with assms show ?thesis
    by (simp add: step_InitialPosition [where d = d])
next
  case (WatchPosition c)
  with assms show ?thesis
    by (simp add: step_WatchPosition [where d = d])
next
  case (GeocodeResolved geocode)
  with assms show ?thesis
    by (simp add: step_def handleSearch_resolved_def)
qed (use assms in \<open>simp_all add: step_def handleSearch_submit_def handleSearch_rejected_def
      toggleTracking_def\<close>)

text \<open>
  On this screen an approach emits at most one alert, and none once the flag is set,
  however many samples arrive.
\<close>

lemma single_alert_per_approach:
  assumes "destination s = Some d" and "list_all (stays_in_approach d) es"
  shows "\<exists>s' fx. run es s = Inr (s', fx) \<and> destination s' = Some d
      \<and> alert_count fx \<le> 1
      \<and> (hasAlerted s \<longrightarrow> alert_count fx = 0 \<and> hasAlerted s')
      \<and> (alert_count fx = 1 \<longrightarrow> hasAlerted s')"
  using assms
proof (induction es arbitrary: s)
  case Nil
  then show ?case by simp
next
  case (Cons e es)
  from Cons.prems obtain s1 fx1 where
    1: "step e s = Inr (s1, fx1)" and d1: "destination s1 = Some d"
    and c1: "alert_count fx1 \<le> 1"
    and h1: "hasAlerted s \<longrightarrow> alert_count fx1 = 0 \<and> hasAlerted s1"
    and a1: "alert_count fx1 = 1 \<longrightarrow> hasAlerted s1"
    using step_stays_in_approach [of s d e] by auto
  from Cons.prems d1 obtain s2 fx2 where
    2: "run es s1 = Inr (s2, fx2)" and d2: "destination s2 = Some d"
    and c2: "alert_count fx2 \<le> 1"
    and h2: "hasAlerted s1 \<longrightarrow> alert_count fx2 = 0 \<and> hasAlerted s2"
    and a2: "alert_count fx2 = 1 \<longrightarrow> hasAlerted s2"
    using Cons.IH [of s1] by auto
  have "run (e # es) s = Inr (s2, fx1 @ fx2)"
    using 1 2 by simp
  moreover have "alert_count (fx1 @ fx2) \<le> 1"
    using c1 c2 a1 h2 by (cases "alert_count fx1 = 1") auto
  moreover have "hasAlerted s \<longrightarrow> alert_count (fx1 @ fx2) = 0 \<and> hasAlerted s2"
    using h1 h2 by simp
  moreover have "alert_count (fx1 @ fx2) = 1 \<longrightarrow> hasAlerted s2"
    using c1 c2 a1 a2 h2 by (cases "alert_count fx1 = 1") auto
  ultimately show ?case
    using d2 by blast
qed

text \<open>
  The trace of the specification's tests: samples at 1.5, 1.8, 3 and 1 km from the
  destination alert at the first and at the last.
\<close>

lemma approach_and_return:
  "run [WatchPosition (equator (3 / 2)), WatchPosition (equator (9 / 5)),
        WatchPosition (equator 3), WatchPosition (equator 1)]
       (initial_screen\<lparr>destination := Some (equator 0)\<rparr>)
   = Inr (initial_screen\<lparr>destination := Some (equator 0), location := Some (equator 1),
            distance := Some (Num 1), hasAlerted := True\<rparr>,
          triggerProximityAlert (Num (3 / 2)) @ triggerProximityAlert (Num 1))"
proof -
  have d: "distanceKm (equator (3 / 2)) (equator 0) = 3 / 2"
    "distanceKm (equator (9 / 5)) (equator 0) = 9 / 5"
    "distanceKm (equator 3) (equator 0) = 3"
    "distanceKm (equator 1) (equator 0) = 1"
    using distanceKm_equator [of 0 "3 / 2"] distanceKm_equator [of 0 "9 / 5"]
      distanceKm_equator [of 0 3] distanceKm_equator [of 0 1] by simp_all
  show ?thesis
    by (simp add: step_WatchPosition [where d = "equator 0"] d initial_screen_def)
qed

subsection \<open>The guard of the effect\<close>

lemma distanceEffect_total: "\<exists>r. distanceEffect s = Inr r"
proof (cases "location s")
  case None
  then show ?thesis by (simp add: distanceEffect_absent)
next
  case (Some c)
  show ?thesis
  proof (cases "destination s")
    case None
    then show ?thesis by (simp add: distanceEffect_absent)
  next
    case (Some d)
    with \<open>location s = Some c\<close> show ?thesis
      by (simp add: distanceEffect_present)
  qed
qed

lemma step_total: "\<exists>r. step e s = Inr r"
proof -
  obtain s1 fx1 where h: "handle e s = (s1, fx1)"
    by (cases "handle e s")
  obtain s2 fx2 where "distanceEffect s1 = Inr (s2, fx2)"
    using distanceEffect_total [of s1] by auto
  with h show ?thesis
    by (simp add: step_def)
qed

text \<open>
  On this screen no sequence of events makes \<open>calculateDistance\<close> read an unset
  coordinate: the guard \<open>location && destination\<close> stands before its only call.
\<close>

lemma run_total: "\<exists>r. run es s = Inr r"
proof (induction es arbitrary: s)
  case Nil
  show ?case by simp
next
  case (Cons e es)
  obtain s1 fx1 where 1: "step e s = Inr (s1, fx1)"
    using step_total [of e s] by auto
  obtain s2 fx2 where "run es s1 = Inr (s2, fx2)"
    using Cons.IH [of s1] by auto
  with 1 show ?case by simp
qed

subsection \<open>Selecting a destination and searching\<close>

lemma selection_rearms:
  "destination (handleMapPress c s) = Some c \<and> \<not> hasAlerted (handleMapPress c s)"
  "destination (fst (handleSearch_resolved (g # gs) s))
     = Some \<lparr>latitude = latitude g, longitude = longitude g\<rparr>
   \<and> \<not> hasAlerted (fst (handleSearch_resolved (g # gs) s))"
  by (simp_all add: handleMapPress_def handleSearch_resolved_def)

text \<open>
  The flag of the old destination has no influence on what follows a selection. The
  effect runs right after it, so a destination selected within 2 km of the current
  position alerts at once and the flag is set again.
\<close>

lemma selection_forgets_flag:
  "step (MapPress c) (s\<lparr>hasAlerted := b\<rparr>) = step (MapPress c) s"
  "step (GeocodeResolved (g # gs)) (s\<lparr>hasAlerted := b\<rparr>) = step (GeocodeResolved (g # gs)) s"
  by (simp_all add: step_def handleMapPress_def handleSearch_resolved_def)

lemma trim_blank:
  assumes "list_all isWhiteSpace q"
  shows "trim q = []"
proof -
  have blank: "dropWhile isWhiteSpace q = []"
    using assms by (simp add: list_all_iff)
  show ?thesis
    unfolding trim_def blank by simp
qed

lemma trim_Nil_iff: "trim q = [] \<longleftrightarrow> list_all isWhiteSpace q"
proof
  assume "trim q = []"
  then have "dropWhile isWhiteSpace (rev (dropWhile isWhiteSpace q)) = []"
    by (simp add: trim_def)
  then have all: "\<forall>c \<in> set (dropWhile isWhiteSpace q). isWhiteSpace c"
    by simp
  have "dropWhile isWhiteSpace q = []"
  proof (cases "dropWhile isWhiteSpace q")
    case Nil
    then show ?thesis .
  next
    case (Cons c cs)
    then have "\<not> isWhiteSpace c"
      using hd_dropWhile [of isWhiteSpace q] by simp
    with all Cons show ?thesis by simp
  qed
  then show "list_all isWhiteSpace q"
    by (simp add: list_all_iff)
qed (rule trim_blank)

text \<open>
  On this screen a search text of white space only is refused before the geocoder is
  called, and nothing changes.
\<close>

lemma blank_search_rejected:
  assumes "list_all isWhiteSpace (searchText s)"
  shows "step SearchPressed s
    = Inr (s, [AlertDialog ''Error'' ''Please enter a location to search''])"
  using assms by (simp add: step_def handleSearch_submit_def trim_blank)

text \<open>
  On this screen an empty answer and a rejection are told apart by their dialogs, and
  neither touches the destination.
\<close>

lemma search_not_found:
  "step (GeocodeResolved []) s =
     Inr (s\<lparr>isLoading := False\<rparr>,
          [AlertDialog ''Not Found'' ''Location not found. Please try again.''])"
  by (simp add: step_def handleSearch_resolved_def)

lemma search_failed:
  "step GeocodeRejected s =
     Inr (s\<lparr>isLoading := False\<rparr>,
          [AlertDialog ''Error'' ''Failed to search location. Please try again.''])"
  by (simp add: step_def handleSearch_rejected_def)

section \<open>The screen of \<open>Home.js\<close>: what it does instead\<close>

text \<open>
  C6. In \<open>Home.js\<close> the effect is guarded by \<open>location && mcoords\<close> only and then calls
  \<open>calculateDistance(location, scoords)\<close>: after the position fix, a tap on the map with
  no search made reads a field of \<open>null\<close> and the effect throws.
\<close>

theorem home_distance_with_unset_scoords:
  "scoords initial_home = None
   \<and> run_home [Position_home (equator 0), Press_home (equator 1)] initial_home
     = Inl TypeError"
  by (simp add: step_home_def initial_home_def handlecord_def distanceEffect_home_def
      calculateDistance_Some calculateDistance_def)

text \<open>
  C1. \<open>Home.js\<close> has no alert flag. The user stands still 1 km from the searched
  destination; each of two taps on the map, 50 km and 60 km away, runs the effect, and
  each run alerts: two alerts in one approach to the same destination.
\<close>

theorem home_alerts_on_every_tap:
  "run_home [Position_home (equator 0), Text_home [0x4B, 0x6F, 0x63, 0x68, 0x69],
             Search_home, Resolved_home [equator 1],
             Press_home (equator 50), Press_home (equator 60)] initial_home
   = Inr (\<lparr>location_home = Some (equator 0), mcoords = Some (equator 60),
            scoords = Some (equator 1), errorMsg_home = None,
            searchtext = [0x4B, 0x6F, 0x63, 0x68, 0x69]\<rparr>,
          [GeocodeAsync [0x4B, 0x6F, 0x63, 0x68, 0x69],
           Vibrate [1000, 500, 1000], WindowAlert ''Da Mandaaaa, STHALAM EHTARAYI!!!!!'',
           Vibrate [1000, 500, 1000], WindowAlert ''Da Mandaaaa, STHALAM EHTARAYI!!!!!''])
   \<and> alert_count
        [GeocodeAsync [0x4B, 0x6F, 0x63, 0x68, 0x69],
         Vibrate [1000, 500, 1000], WindowAlert ''Da Mandaaaa, STHALAM EHTARAYI!!!!!'',
         Vibrate [1000, 500, 1000], WindowAlert ''Da Mandaaaa, STHALAM EHTARAYI!!!!!''] = 2"
  by (simp add: step_home_def initial_home_def handlecord_def handleSearch_home_def
      geocode_submit_def geocode_resolved_def distanceEffect_home_def
      calculateDistance_Some le_number_def alert_count_def)

text \<open>
  C5. In \<open>Home.js\<close> a tap stores \<open>mcoords\<close> and a search stores \<open>scoords\<close>. After a
  search and then a tap both destinations are set, the tap has replaced nothing, and the
  alert that follows is for the searched one (1 km away; the tapped one is 50 km away).
\<close>

theorem home_keeps_both_destinations:
  "run_home [Position_home (equator 0), Text_home [0x4B, 0x6F, 0x63, 0x68, 0x69],
             Search_home, Resolved_home [equator 1], Press_home (equator 50)] initial_home
   = Inr (\<lparr>location_home = Some (equator 0), mcoords = Some (equator 50),
            scoords = Some (equator 1), errorMsg_home = None,
            searchtext = [0x4B, 0x6F, 0x63, 0x68, 0x69]\<rparr>,
          [GeocodeAsync [0x4B, 0x6F, 0x63, 0x68, 0x69],
           Vibrate [1000, 500, 1000], WindowAlert ''Da Mandaaaa, STHALAM EHTARAYI!!!!!''])
   \<and> equator 50 \<noteq> equator 1
   \<and> distanceKm (equator 0) (equator 50) = 50
   \<and> distanceKm (equator 0) (equator 1) = 1"
  by (simp add: step_home_def initial_home_def handlecord_def handleSearch_home_def
      geocode_submit_def geocode_resolved_def distanceEffect_home_def
      calculateDistance_Some le_number_def equator_distinct)

text \<open>
  C7. \<open>geocode\<close> of \<open>Home.js\<close> checks nothing: with a search text of two spaces, and
  with the empty one, it calls the geocoder, and the answer becomes the searched
  destination.
\<close>

theorem home_geocodes_blank_query:
  "list_all isWhiteSpace [0x20, 0x20]
   \<and> run_home [Text_home [0x20, 0x20], Search_home, Resolved_home [equator 1]] initial_home
     = Inr (initial_home\<lparr>searchtext := [0x20, 0x20], scoords := Some (equator 1)\<rparr>,
            [GeocodeAsync [0x20, 0x20]])
   \<and> run_home [Search_home] initial_home = Inr (initial_home, [GeocodeAsync []])"
  by (simp add: step_home_def initial_home_def handleSearch_home_def geocode_submit_def
      geocode_resolved_def isWhiteSpace_def)

text \<open>
  C8. In \<open>Home.js\<close> an empty answer stores \<open>geocode[0]\<close>, that is \<open>undefined\<close>, over the
  searched destination and reports nothing; a rejection reports nothing either.
\<close>

theorem home_silent_on_empty_result:
  "step_home (Resolved_home []) (initial_home\<lparr>scoords := Some (equator 1)\<rparr>)
     = Inr (initial_home\<lparr>scoords := None\<rparr>, [])
   \<and> step_home Rejected_home (initial_home\<lparr>scoords := Some (equator 1)\<rparr>)
     = Inr (initial_home\<lparr>scoords := Some (equator 1)\<rparr>, [])"
  by (simp add: step_home_def initial_home_def geocode_resolved_def)

end
